theory Spec2Isabelle
  imports Complex_Main "HOL-Library.Word"
begin

section \<open>Motion-control firmware of the localization module\<close>

text \<open>
  The development embeds two sketches of the repository:
  \<^item> \<^verbatim>\<open>ILMMCodes/integrated_movement/integrated_movement.ino\<close>, the consolidated
    controller (directional interlocks, discrete maneuvers, framed serial protocol);
  \<^item> the sketch kept as \<^verbatim>\<open>unnamed/part_000\<close>, the tag-tracking variant, of which the
    motor actuation and the continuous holonomic mapper are embedded. Its functions carry the suffix
    \<open>_tag\<close> where a name is shared with the consolidated sketch.

  Conventions of the embedding.
  \<^item> C \<^verbatim>\<open>float\<close> and \<^verbatim>\<open>double\<close> values are modelled by \<^typ>\<open>real\<close>: rounding,
    infinities and NaN are not represented, except in the value that \<^verbatim>\<open>sscanf\<close> delivers
    for \<^verbatim>\<open>%f\<close> (\<open>cfloat\<close>).
  \<^item> C \<^verbatim>\<open>int\<close> values are modelled by \<^typ>\<open>int\<close>. The values that \<^verbatim>\<open>sscanf\<close> stores wrap
    around to the width of the platform's \<^verbatim>\<open>int\<close>; no other modelled computation leaves
    the range of a 16-bit \<^verbatim>\<open>int\<close> when its inputs are in range. The conversion of a
    floating-point value to \<^verbatim>\<open>int\<close> truncates towards zero (\<open>c_int\<close>).
  \<^item> \<^verbatim>\<open>millis()\<close> values are \<^typ>\<open>32 word\<close> (\<^verbatim>\<open>unsigned long\<close>), subtraction wraps.
  \<^item> Globals become fields of the record \<open>state\<close>; a function that mutates globals
    takes the state and returns the new one.
  \<^item> \<^verbatim>\<open>analogWrite\<close> calls are appended to the field \<open>pwm\<close>, \<^verbatim>\<open>Serial\<close> output to
    the field \<open>serial\<close>, and every call of \<^verbatim>\<open>moveMotor\<close> (wheel, direction, target
    speed) to the field \<open>cmds\<close>. The enable lines are only ever written \<^verbatim>\<open>HIGH\<close> and are not
    represented; neither are the NeoPixel effects.
\<close>

subsection \<open>Arduino macros and conversions\<close>

definition constrain :: "'a::linorder \<Rightarrow> 'a \<Rightarrow> 'a \<Rightarrow> 'a" where
  \<comment> \<open>\<^verbatim>\<open>#define constrain(amt,low,high) ((amt)<(low)?(low):((amt)>(high)?(high):(amt)))\<close>\<close>
  "constrain amt low high = (if amt < low then low else if amt > high then high else amt)"

definition c_abs :: "real \<Rightarrow> real" where
  \<comment> \<open>\<^verbatim>\<open>#define abs(x) ((x)>0?(x):-(x))\<close>\<close>
  "c_abs x = (if x > 0 then x else - x)"

definition c_int :: "real \<Rightarrow> int" where
  \<comment> \<open>\<^verbatim>\<open>(int) x\<close>: truncation towards zero\<close>
  "c_int x = (if 0 \<le> x then \<lfloor>x\<rfloor> else \<lceil>x\<rceil>)"

subsection \<open>Types and globals of the consolidated sketch\<close>

datatype Direction = FORWARD | BACKWARD | STOP

datatype Wheel = LEFT | RIGHT | BACK
  \<comment> \<open>the globals \<^verbatim>\<open>motorLeft\<close>, \<^verbatim>\<open>motorRight\<close>, \<^verbatim>\<open>motorBack\<close>\<close>

datatype Channel = RPWM | LPWM

datatype AvoidanceState = IDLE | ROTATING_AWAY | MOVING_PAST | ROTATING_BACK | RETURNING_TO_PATH

datatype cfloat = Finite real | Infinity | MinusInfinity | NotANumber
  \<comment> \<open>a \<^verbatim>\<open>float\<close> as \<^verbatim>\<open>sscanf\<close> may deliver it\<close>

datatype arg = AInt int | AReal real | AStr string

datatype sval = Str string | Num int | Flt cfloat | Fmt string "arg list"
  \<comment> \<open>a value handed to \<^verbatim>\<open>Serial.print\<close>; \<open>Fmt f as\<close> is the text \<^verbatim>\<open>sprintf\<close> builds from \<open>f\<close> and \<open>as\<close>\<close>

datatype sout = Print sval | Println sval

record state =
  MAX_SPEED :: int
  MIN_SPEED :: int
  DEBUG_MODE :: bool
  masterOverrideActive :: bool
  useThreeWheels :: bool
  enableObstacleAvoidance :: bool
  decelerationActive :: bool
  emergencyStop :: bool
  frontEmergencyStop :: bool
  backEmergencyStop :: bool
  leftEmergencyStop :: bool
  rightEmergencyStop :: bool
  distFL :: real
  distF :: real
  distFR :: real
  distBL :: real
  distB :: real
  distBR :: real
  currentSpeed :: "Wheel \<Rightarrow> real"
  prevDirection :: "Wheel \<Rightarrow> Direction"
  avoidanceState :: AvoidanceState
  avoidanceAttempts :: int
  avoidanceSuccessful :: bool
  lastTagUpdate :: "32 word"
  pwm :: "(Wheel \<times> Channel \<times> int) list"
  cmds :: "(Wheel \<times> Direction \<times> real) list"
  serial :: "sout list"

definition MAX_ROTATION_SPEED :: int where
  "MAX_ROTATION_SPEED = 65"

definition ACCEL_RATE :: real where
  "ACCEL_RATE = 15 / 100"

definition CRITICAL_DISTANCE :: real where
  "CRITICAL_DISTANCE = 15"

definition SLOW_DOWN_DISTANCE :: real where
  "SLOW_DOWN_DISTANCE = 30"

definition SAFE_DISTANCE :: real where
  "SAFE_DISTANCE = 60"

definition MAX_AVOIDANCE_ATTEMPTS :: int where
  "MAX_AVOIDANCE_ATTEMPTS = 3"

text \<open>
  Functions that the consolidated sketch declares and calls but that are defined in
  files outside the sources at hand (\<^verbatim>\<open>smooth_deceleration.ino\<close> and the obstacle
  avoidance procedure), the level of the override pin that \<^verbatim>\<open>digitalRead\<close> returns, and
  the number of bits of the platform's \<^verbatim>\<open>int\<close>. They are parameters of the model.
\<close>

record ext =
  navigateAroundObstacle :: "int \<Rightarrow> state \<Rightarrow> bool \<times> state"
  continueObstacleAvoidance :: "state \<Rightarrow> bool \<times> state"
  startSmoothDeceleration :: "state \<Rightarrow> state"
  handleSmoothDeceleration :: "state \<Rightarrow> state"
  emergencyStopAllMotors :: "state \<Rightarrow> state"
  overridePinLow :: bool
  intBits :: nat

definition say :: "sout \<Rightarrow> state \<Rightarrow> state" where
  "say x s = s\<lparr>serial := serial s @ [x]\<rparr>"

definition debugPrintV :: "sval \<Rightarrow> state \<Rightarrow> state" where
  \<comment> \<open>\<^verbatim>\<open>debugPrint(message)\<close>\<close>
  "debugPrintV m s =
     (if DEBUG_MODE s
      then s\<lparr>serial := serial s @ [Print (Str ''<DEBUG:''), Print m, Println (Str ''>'')]\<rparr>
      else s)"

abbreviation debugPrint :: "string \<Rightarrow> state \<Rightarrow> state" where
  "debugPrint m \<equiv> debugPrintV (Str m)"

subsection \<open>Distance zone monitor: the interlock update of \<^verbatim>\<open>loop()\<close>\<close>

definition setFlag ::
  "bool \<Rightarrow> (state \<Rightarrow> bool) \<Rightarrow> (bool \<Rightarrow> state \<Rightarrow> state) \<Rightarrow> string \<Rightarrow> string \<Rightarrow> state \<Rightarrow> state" where
  \<comment> \<open>the pattern \<^verbatim>\<open>if (danger != flag) { flag = danger; if (flag && DEBUG_MODE) ... else if ... }\<close>
      for the flag read by \<open>get\<close> and written by \<open>upd\<close>\<close>
  "setFlag danger get upd on off s =
     (if danger \<noteq> get s
      then (let s1 = upd danger s
            in if get s1 \<and> DEBUG_MODE s1 then debugPrint on s1
               else if \<not> get s1 \<and> DEBUG_MODE s1 then debugPrint off s1
               else s1)
      else s)"

definition updateInterlocks :: "state \<Rightarrow> state" where
  \<comment> \<open>\<^verbatim>\<open>loop()\<close>, inside \<^verbatim>\<open>if (now - lastControlLoop >= CONTROL_LOOP_INTERVAL)\<close>: from the
      four danger predicates to the assignment of \<^verbatim>\<open>emergencyStop\<close>\<close>
  "updateInterlocks s =
     (let frontDanger = (distF s < CRITICAL_DISTANCE \<or> distFL s < CRITICAL_DISTANCE
                          \<or> distFR s < CRITICAL_DISTANCE);
          backDanger = (distB s < CRITICAL_DISTANCE \<or> distBL s < CRITICAL_DISTANCE
                          \<or> distBR s < CRITICAL_DISTANCE);
          leftDanger = (distFL s < CRITICAL_DISTANCE \<or> distBL s < CRITICAL_DISTANCE);
          rightDanger = (distFR s < CRITICAL_DISTANCE \<or> distBR s < CRITICAL_DISTANCE);
          s1 = setFlag frontDanger frontEmergencyStop (\<lambda>b t. t\<lparr>frontEmergencyStop := b\<rparr>)
                 ''EMERGENCY_STOP:FRONT'' ''EMERGENCY_RELEASED:FRONT'' s;
          s2 = setFlag backDanger backEmergencyStop (\<lambda>b t. t\<lparr>backEmergencyStop := b\<rparr>)
                 ''EMERGENCY_STOP:BACK'' ''EMERGENCY_RELEASED:BACK'' s1;
          s3 = setFlag leftDanger leftEmergencyStop (\<lambda>b t. t\<lparr>leftEmergencyStop := b\<rparr>)
                 ''EMERGENCY_STOP:LEFT'' ''EMERGENCY_RELEASED:LEFT'' s2;
          s4 = setFlag rightDanger rightEmergencyStop (\<lambda>b t. t\<lparr>rightEmergencyStop := b\<rparr>)
                 ''EMERGENCY_STOP:RIGHT'' ''EMERGENCY_RELEASED:RIGHT'' s3
      in s4\<lparr>emergencyStop := frontEmergencyStop s4 \<or> backEmergencyStop s4
                                 \<or> leftEmergencyStop s4 \<or> rightEmergencyStop s4\<rparr>)"

definition controlTick :: "ext \<Rightarrow> state \<Rightarrow> state" where
  \<comment> \<open>the whole block: the interlock update, then the all-sides emergency stop and the
      debug report of the distances (the periodic status line is left out)\<close>
  "controlTick X s =
     (let prevEmergencyStop = emergencyStop s;
          s5 = updateInterlocks s;
          s6 = (if emergencyStop s5 \<and> \<not> prevEmergencyStop \<and> frontEmergencyStop s5
                   \<and> backEmergencyStop s5 \<and> leftEmergencyStop s5 \<and> rightEmergencyStop s5
                then (let t = emergencyStopAllMotors X s5
                      in if DEBUG_MODE t then debugPrint ''CRITICAL_EMERGENCY:ALL_SIDES_BLOCKED'' t
                         else t)
                else s5)
      in if emergencyStop s6 \<and> \<not> prevEmergencyStop \<and> DEBUG_MODE s6
         then debugPrintV (Fmt ''Distances: FL=%.1f F=%.1f FR=%.1f BL=%.1f B=%.1f BR=%.1f''
                [AReal (distFL s6), AReal (distF s6), AReal (distFR s6),
                 AReal (distBL s6), AReal (distB s6), AReal (distBR s6)]) s6
         else s6)"

subsection \<open>Safety-focused dynamic speed\<close>

definition calculateDynamicSpeed :: "state \<Rightarrow> real \<Rightarrow> real \<Rightarrow> real" where
  "calculateDynamicSpeed s distance desiredSpeed =
     (if distance \<le> CRITICAL_DISTANCE then 0
      else if distance \<le> SLOW_DOWN_DISTANCE then
        (let safetyFactor = 0.5 + (0.5 * (distance - CRITICAL_DISTANCE)
                                     / (SLOW_DOWN_DISTANCE - CRITICAL_DISTANCE));
             safeSpeed = desiredSpeed * safetyFactor
         in max (real_of_int (MIN_SPEED s)) safeSpeed)
      else desiredSpeed)"

text \<open>The tag-tracking variant has its own thresholds and interpolates linearly.\<close>

definition CRITICAL_DISTANCE_tag :: real where
  "CRITICAL_DISTANCE_tag = 10"

definition SLOW_DOWN_DISTANCE_tag :: real where
  "SLOW_DOWN_DISTANCE_tag = 30"

definition calculateDynamicSpeed_tag :: "state \<Rightarrow> real \<Rightarrow> real \<Rightarrow> real" where
  "calculateDynamicSpeed_tag s distance targetSpeed =
     (if distance \<le> CRITICAL_DISTANCE_tag then 0
      else if distance \<le> SLOW_DOWN_DISTANCE_tag then
        (let factor = (distance - CRITICAL_DISTANCE_tag)
                        / (SLOW_DOWN_DISTANCE_tag - CRITICAL_DISTANCE_tag)
         in real_of_int (MIN_SPEED s) + (targetSpeed - real_of_int (MIN_SPEED s)) * factor)
      else targetSpeed)"

subsection \<open>Motor actuation of the consolidated sketch\<close>

definition analogWrite :: "Wheel \<Rightarrow> Channel \<Rightarrow> int \<Rightarrow> state \<Rightarrow> state" where
  "analogWrite m c v s = s\<lparr>pwm := pwm s @ [(m, c, v)]\<rparr>"

definition logCmd :: "Wheel \<Rightarrow> Direction \<Rightarrow> real \<Rightarrow> state \<Rightarrow> state" where
  "logCmd m dir v s = s\<lparr>cmds := cmds s @ [(m, dir, v)]\<rparr>"

definition setCurrentSpeed :: "Wheel \<Rightarrow> real \<Rightarrow> state \<Rightarrow> state" where
  \<comment> \<open>\<^verbatim>\<open>motor.currentSpeed = v\<close>\<close>
  "setCurrentSpeed m v s = s\<lparr>currentSpeed := (currentSpeed s)(m := v)\<rparr>"

definition setPrevDirection :: "Wheel \<Rightarrow> Direction \<Rightarrow> state \<Rightarrow> state" where
  \<comment> \<open>\<^verbatim>\<open>*prevDir = dir\<close>, the static array \<^verbatim>\<open>prevDirection\<close> of \<^verbatim>\<open>moveMotor\<close>\<close>
  "setPrevDirection m d s = s\<lparr>prevDirection := (prevDirection s)(m := d)\<rparr>"

definition accelLimit :: "int \<Rightarrow> real \<Rightarrow> real \<Rightarrow> real" where
  \<comment> \<open>the acceleration limiting of \<^verbatim>\<open>moveMotor\<close>: the new \<^verbatim>\<open>currentSpeed\<close>\<close>
  "accelLimit maxSpeed cur targetSpeed =
     (if targetSpeed > cur then min targetSpeed (cur + real_of_int maxSpeed * ACCEL_RATE)
      else if targetSpeed < cur then max targetSpeed (cur - real_of_int maxSpeed * ACCEL_RATE)
      else cur)"

definition moveMotor :: "Wheel \<Rightarrow> Direction \<Rightarrow> real \<Rightarrow> state \<Rightarrow> state" where
  "moveMotor m dir targetSpeed s =
     (let s1 = logCmd m dir targetSpeed s;
          s2 = (if prevDirection s1 m \<noteq> dir \<and> prevDirection s1 m \<noteq> STOP
                then setCurrentSpeed m 0 s1 else s1);
          s3 = setPrevDirection m dir s2;
          s4 = setCurrentSpeed m (accelLimit (MAX_SPEED s3) (currentSpeed s3 m) targetSpeed) s3;
          speed0 = c_int (currentSpeed s4 m);
          speed = (if speed0 > 0 \<and> speed0 < MIN_SPEED s4 then MIN_SPEED s4 else speed0)
      in case dir of
           FORWARD \<Rightarrow> analogWrite m LPWM 0 (analogWrite m RPWM speed s4)
         | BACKWARD \<Rightarrow> analogWrite m LPWM speed (analogWrite m RPWM 0 s4)
         | STOP \<Rightarrow>
             (if \<not> decelerationActive s4
              then setCurrentSpeed m 0 (analogWrite m LPWM 0 (analogWrite m RPWM 0 s4))
              else s4))"

definition stopAllMotors :: "ext \<Rightarrow> state \<Rightarrow> state" where
  "stopAllMotors X s =
     (let s1 = startSmoothDeceleration X s
      in if masterOverrideActive s1 \<and> DEBUG_MODE s1
         then debugPrint ''STOPPED:MASTER_OVERRIDE'' s1 else s1)"

subsection \<open>Discrete maneuvers of the consolidated sketch\<close>

definition rotateLeft :: "int \<Rightarrow> state \<Rightarrow> state" where
  "rotateLeft speed0 s =
     (let s1 = debugPrint ''Rotating LEFT (CCW)'' s;
          speed = constrain speed0 (MIN_SPEED s1) MAX_ROTATION_SPEED;
          s2 = setCurrentSpeed RIGHT 0 (setCurrentSpeed LEFT 0 s1)
      in if useThreeWheels s2
         then moveMotor BACK BACKWARD (real_of_int speed)
                (moveMotor RIGHT FORWARD (real_of_int speed)
                  (moveMotor LEFT FORWARD (real_of_int speed) s2))
         else moveMotor BACK STOP 0
                (moveMotor RIGHT FORWARD (real_of_int speed)
                  (moveMotor LEFT FORWARD (real_of_int speed) s2)))"

definition rotateRight :: "int \<Rightarrow> state \<Rightarrow> state" where
  "rotateRight speed0 s =
     (let s1 = debugPrint ''Rotating RIGHT (CW)'' s;
          speed = constrain speed0 (MIN_SPEED s1) MAX_ROTATION_SPEED;
          s2 = setCurrentSpeed RIGHT 0 (setCurrentSpeed LEFT 0 s1)
      in if useThreeWheels s2
         then moveMotor BACK FORWARD (real_of_int speed)
                (moveMotor RIGHT BACKWARD (real_of_int speed)
                  (moveMotor LEFT BACKWARD (real_of_int speed) s2))
         else moveMotor BACK STOP 0
                (moveMotor RIGHT BACKWARD (real_of_int speed)
                  (moveMotor LEFT BACKWARD (real_of_int speed) s2)))"

definition moveForward :: "ext \<Rightarrow> int \<Rightarrow> state \<Rightarrow> state" where
  "moveForward X speed0 s =
     (if frontEmergencyStop s then
        (let s1 = debugPrint ''FORWARD_BLOCKED:EMERGENCY_STOP_ACTIVE'' s
         in if enableObstacleAvoidance s1
            then (case navigateAroundObstacle X speed0 s1 of
                    (done, s2) \<Rightarrow>
                      if done \<and> avoidanceSuccessful s2 \<and> DEBUG_MODE s2
                      then debugPrint ''AVOIDANCE_SUCCESSFUL:PATH_CLEARED'' s2 else s2)
            else s1)
      else if avoidanceState s \<noteq> IDLE \<and> enableObstacleAvoidance s then
        (case continueObstacleAvoidance X s of
           (result, s1) \<Rightarrow>
             if result
             then (let s2 = (if avoidanceSuccessful s1 \<and> DEBUG_MODE s1
                             then debugPrint ''AVOIDANCE_COMPLETED:RETURNING_TO_NORMAL_MOVEMENT'' s1
                             else if \<not> avoidanceSuccessful s1 \<and> DEBUG_MODE s1
                             then debugPrint ''AVOIDANCE_ABANDONED:COULD_NOT_FIND_PATH'' s1
                             else s1)
                   in s2\<lparr>avoidanceAttempts := 0, avoidanceState := IDLE,
                         avoidanceSuccessful := False\<rparr>)
             else s1)
      else
        (let s1 = debugPrint ''Moving FORWARD'' s;
             speed = constrain speed0 (MIN_SPEED s1) (MAX_SPEED s1);
             s2 = moveMotor RIGHT FORWARD (real_of_int speed)
                    (moveMotor LEFT BACKWARD (real_of_int speed) s1)
         in if useThreeWheels s2 then moveMotor BACK FORWARD (real_of_int speed) s2
            else moveMotor BACK STOP 0 s2))"

definition moveBackward :: "int \<Rightarrow> state \<Rightarrow> state" where
  "moveBackward speed0 s =
     (if backEmergencyStop s then debugPrint ''BACKWARD_BLOCKED:EMERGENCY_STOP_ACTIVE'' s
      else
        (let s1 = debugPrint ''Moving BACKWARD'' s;
             speed = constrain speed0 (MIN_SPEED s1) (MAX_SPEED s1);
             s2 = moveMotor RIGHT BACKWARD (real_of_int speed)
                    (moveMotor LEFT FORWARD (real_of_int speed) s1)
         in if useThreeWheels s2 then moveMotor BACK BACKWARD (real_of_int speed) s2
            else moveMotor BACK STOP 0 s2))"

definition turnLeft :: "int \<Rightarrow> state \<Rightarrow> state" where
  "turnLeft speed0 s =
     (if leftEmergencyStop s then debugPrint ''LEFT_TURN_BLOCKED:EMERGENCY_STOP_ACTIVE'' s
      else
        (let s1 = debugPrint ''Arc Turning LEFT'' s;
             speed = constrain speed0 (MIN_SPEED s1) MAX_ROTATION_SPEED;
             leftSpeed = c_int (max (real_of_int (MIN_SPEED s1)) (real_of_int speed * 0.5));
             rightSpeed = c_int (min (real_of_int (MAX_SPEED s1)) (real_of_int speed * 1.5));
             s2 = debugPrintV (Fmt ''TURN_LEFT: Left=%d, Right=%d'' [AInt leftSpeed, AInt rightSpeed]) s1;
             s3 = moveMotor RIGHT FORWARD (real_of_int rightSpeed)
                    (moveMotor LEFT BACKWARD (real_of_int leftSpeed) s2)
         in if useThreeWheels s3 then moveMotor BACK FORWARD (real_of_int speed * 0.75) s3
            else moveMotor BACK STOP 0 s3))"

definition turnRight :: "int \<Rightarrow> state \<Rightarrow> state" where
  "turnRight speed0 s =
     (if rightEmergencyStop s then debugPrint ''RIGHT_TURN_BLOCKED:EMERGENCY_STOP_ACTIVE'' s
      else
        (let s1 = debugPrint ''Arc Turning RIGHT'' s;
             speed = constrain speed0 (MIN_SPEED s1) MAX_ROTATION_SPEED;
             leftSpeed = c_int (min (real_of_int (MAX_SPEED s1)) (real_of_int speed * 1.5));
             rightSpeed = c_int (max (real_of_int (MIN_SPEED s1)) (real_of_int speed * 0.5));
             s2 = debugPrintV (Fmt ''TURN_RIGHT: Left=%d, Right=%d'' [AInt leftSpeed, AInt rightSpeed]) s1;
             s3 = moveMotor RIGHT FORWARD (real_of_int rightSpeed)
                    (moveMotor LEFT BACKWARD (real_of_int leftSpeed) s2)
         in if useThreeWheels s3 then moveMotor BACK FORWARD (real_of_int speed * 0.75) s3
            else moveMotor BACK STOP 0 s3))"

definition slideLeft :: "int \<Rightarrow> state \<Rightarrow> state" where
  "slideLeft speed0 s =
     (if leftEmergencyStop s then debugPrint ''SLIDE_LEFT_BLOCKED:EMERGENCY_STOP_ACTIVE'' s
      else
        (let s1 = debugPrint ''Sliding LEFT'' s;
             speed = constrain speed0 (MIN_SPEED s1) (MAX_SPEED s1)
         in if useThreeWheels s1
            then moveMotor BACK FORWARD (real_of_int speed)
                   (moveMotor RIGHT BACKWARD (real_of_int speed) (moveMotor LEFT STOP 0 s1))
            else if \<not> leftEmergencyStop s1 \<and> \<not> rightEmergencyStop s1 then rotateLeft speed s1
            else debugPrint ''SLIDE_LEFT_BLOCKED:CANNOT_ROTATE_SAFELY'' s1))"

definition slideRight :: "int \<Rightarrow> state \<Rightarrow> state" where
  "slideRight speed0 s =
     (if rightEmergencyStop s then debugPrint ''SLIDE_RIGHT_BLOCKED:EMERGENCY_STOP_ACTIVE'' s
      else
        (let s1 = debugPrint ''Sliding RIGHT'' s;
             speed = constrain speed0 (MIN_SPEED s1) (MAX_SPEED s1)
         in if useThreeWheels s1
            then moveMotor BACK BACKWARD (real_of_int speed)
                   (moveMotor RIGHT STOP 0 (moveMotor LEFT BACKWARD (real_of_int speed) s1))
            else if \<not> leftEmergencyStop s1 \<and> \<not> rightEmergencyStop s1 then rotateRight speed s1
            else debugPrint ''SLIDE_RIGHT_BLOCKED:CANNOT_ROTATE_SAFELY'' s1))"

definition moveDiagonalForwardLeft :: "int \<Rightarrow> state \<Rightarrow> state" where
  "moveDiagonalForwardLeft speed0 s =
     (if frontEmergencyStop s \<or> leftEmergencyStop s
      then debugPrint ''DIAG_FORWARD_LEFT_BLOCKED:EMERGENCY_STOP_ACTIVE'' s
      else
        (let s1 = debugPrint ''Moving Diagonal Forward-Left'' s;
             speed = constrain speed0 (MIN_SPEED s1) (MAX_SPEED s1);
             s2 = moveMotor RIGHT FORWARD (real_of_int speed)
                    (moveMotor LEFT BACKWARD (real_of_int speed * 0.3) s1)
         in if useThreeWheels s2 then moveMotor BACK FORWARD (real_of_int speed * 0.6) s2
            else moveMotor BACK STOP 0 s2))"

definition moveDiagonalForwardRight :: "int \<Rightarrow> state \<Rightarrow> state" where
  "moveDiagonalForwardRight speed0 s =
     (if frontEmergencyStop s \<or> rightEmergencyStop s
      then debugPrint ''DIAG_FORWARD_RIGHT_BLOCKED:EMERGENCY_STOP_ACTIVE'' s
      else
        (let s1 = debugPrint ''Moving Diagonal Forward-Right'' s;
             speed = constrain speed0 (MIN_SPEED s1) (MAX_SPEED s1);
             s2 = moveMotor RIGHT FORWARD (real_of_int speed * 0.3)
                    (moveMotor LEFT BACKWARD (real_of_int speed) s1)
         in if useThreeWheels s2 then moveMotor BACK FORWARD (real_of_int speed * 0.6) s2
            else moveMotor BACK STOP 0 s2))"

definition moveDiagonalBackwardLeft :: "int \<Rightarrow> state \<Rightarrow> state" where
  "moveDiagonalBackwardLeft speed0 s =
     (if backEmergencyStop s \<or> leftEmergencyStop s
      then debugPrint ''DIAG_BACKWARD_LEFT_BLOCKED:EMERGENCY_STOP_ACTIVE'' s
      else
        (let s1 = debugPrint ''Moving Diagonal Backward-Left'' s;
             speed = constrain speed0 (MIN_SPEED s1) (MAX_SPEED s1);
             s2 = moveMotor RIGHT BACKWARD (real_of_int speed)
                    (moveMotor LEFT FORWARD (real_of_int speed * 0.3) s1)
         in if useThreeWheels s2 then moveMotor BACK BACKWARD (real_of_int speed * 0.6) s2
            else moveMotor BACK STOP 0 s2))"

definition moveDiagonalBackwardRight :: "int \<Rightarrow> state \<Rightarrow> state" where
  "moveDiagonalBackwardRight speed0 s =
     (if backEmergencyStop s \<or> rightEmergencyStop s
      then debugPrint ''DIAG_BACKWARD_RIGHT_BLOCKED:EMERGENCY_STOP_ACTIVE'' s
      else
        (let s1 = debugPrint ''Moving Diagonal Backward-Right'' s;
             speed = constrain speed0 (MIN_SPEED s1) (MAX_SPEED s1);
             s2 = moveMotor RIGHT BACKWARD (real_of_int speed * 0.3)
                    (moveMotor LEFT FORWARD (real_of_int speed) s1)
         in if useThreeWheels s2 then moveMotor BACK BACKWARD (real_of_int speed * 0.6) s2
            else moveMotor BACK STOP 0 s2))"

definition movementBlocked :: "int \<Rightarrow> state \<Rightarrow> bool" where
  \<comment> \<open>\<^verbatim>\<open>executeMovement\<close>: "Check direction-specific emergency stops"\<close>
  "movementBlocked direction s =
     ((direction = 1 \<and> frontEmergencyStop s) \<or>
      (direction = 2 \<and> backEmergencyStop s) \<or>
      (direction = 3 \<and> leftEmergencyStop s) \<or>
      (direction = 4 \<and> rightEmergencyStop s) \<or>
      (direction = 5 \<and> (leftEmergencyStop s \<or> rightEmergencyStop s)) \<or>
      (direction = 6 \<and> (leftEmergencyStop s \<or> rightEmergencyStop s)))"

definition reportBlocked :: "int \<Rightarrow> state \<Rightarrow> state" where
  \<comment> \<open>\<^verbatim>\<open>executeMovement\<close>: the debug message of a blocked request\<close>
  "reportBlocked direction s =
     (if direction = 1 then debugPrint ''MOVEMENT_BLOCKED:EMERGENCY_STOP_FORWARD'' s
      else if direction = 2 then debugPrint ''MOVEMENT_BLOCKED:EMERGENCY_STOP_BACKWARD'' s
      else if direction = 3 then debugPrint ''MOVEMENT_BLOCKED:EMERGENCY_STOP_LEFT'' s
      else if direction = 4 then debugPrint ''MOVEMENT_BLOCKED:EMERGENCY_STOP_RIGHT'' s
      else if direction = 5 then debugPrint ''MOVEMENT_BLOCKED:EMERGENCY_STOP_ROTATE_LEFT'' s
      else if direction = 6 then debugPrint ''MOVEMENT_BLOCKED:EMERGENCY_STOP_ROTATE_RIGHT'' s
      else s)"

definition safeSpeedFor :: "int \<Rightarrow> int \<Rightarrow> state \<Rightarrow> int" where
  \<comment> \<open>\<^verbatim>\<open>executeMovement\<close>: the safety-adjusted speed \<^verbatim>\<open>safeSpeed\<close>\<close>
  "safeSpeedFor direction desiredSpeed s =
     (let forwardDist = min (min (distFL s) (distF s)) (distFR s);
          backwardDist = min (min (distBL s) (distB s)) (distBR s);
          leftDist = min (distFL s) (distBL s);
          rightDist = min (distFR s) (distBR s);
          desired = real_of_int desiredSpeed
      in if direction = 1 \<and> forwardDist < SLOW_DOWN_DISTANCE
           then c_int (calculateDynamicSpeed s forwardDist desired)
         else if direction = 2 \<and> backwardDist < SLOW_DOWN_DISTANCE
           then c_int (calculateDynamicSpeed s backwardDist desired)
         else if direction = 3 \<and> leftDist < SLOW_DOWN_DISTANCE
           then c_int (calculateDynamicSpeed s leftDist desired)
         else if direction = 4 \<and> rightDist < SLOW_DOWN_DISTANCE
           then c_int (calculateDynamicSpeed s rightDist desired)
         else if direction = 5 \<and> leftDist < SLOW_DOWN_DISTANCE
           then c_int (calculateDynamicSpeed s leftDist desired)
         else if direction = 6 \<and> rightDist < SLOW_DOWN_DISTANCE
           then c_int (calculateDynamicSpeed s rightDist desired)
         else if direction = 7 \<and> forwardDist < SLOW_DOWN_DISTANCE
           then c_int (calculateDynamicSpeed s forwardDist desired)
         else if direction = 8 \<and> forwardDist < SLOW_DOWN_DISTANCE
           then c_int (calculateDynamicSpeed s forwardDist desired)
         else if direction = 9 \<and> backwardDist < SLOW_DOWN_DISTANCE
           then c_int (calculateDynamicSpeed s backwardDist desired)
         else if direction = 10 \<and> backwardDist < SLOW_DOWN_DISTANCE
           then c_int (calculateDynamicSpeed s backwardDist desired)
         else desiredSpeed)"

definition reportAdjusted :: "int \<Rightarrow> int \<Rightarrow> state \<Rightarrow> state" where
  \<comment> \<open>\<^verbatim>\<open>executeMovement\<close>: "Debug for safety adjustments"\<close>
  "reportAdjusted desiredSpeed safeSpeed s =
     (if safeSpeed \<noteq> desiredSpeed
      then debugPrintV (Fmt ''SPEED_ADJUSTED:desired=%d,safe=%d''
             [AInt desiredSpeed, AInt safeSpeed]) s
      else s)"

definition performMovement :: "ext \<Rightarrow> int \<Rightarrow> int \<Rightarrow> state \<Rightarrow> state" where
  \<comment> \<open>\<^verbatim>\<open>executeMovement\<close>: the \<^verbatim>\<open>switch (direction)\<close>\<close>
  "performMovement X direction safeSpeed s =
     (if direction = 1 then moveForward X safeSpeed s
      else if direction = 2 then moveBackward safeSpeed s
      else if direction = 3 then turnLeft safeSpeed s
      else if direction = 4 then turnRight safeSpeed s
      else if direction = 5
        then rotateLeft (constrain safeSpeed (MIN_SPEED s) MAX_ROTATION_SPEED) s
      else if direction = 6
        then rotateRight (constrain safeSpeed (MIN_SPEED s) MAX_ROTATION_SPEED) s
      else if direction = 7 then slideLeft safeSpeed s
      else if direction = 8 then slideRight safeSpeed s
      else if direction = 9 then moveDiagonalForwardLeft safeSpeed s
      else if direction = 10 then moveDiagonalForwardRight safeSpeed s
      else if direction = 11 then moveDiagonalBackwardLeft safeSpeed s
      else if direction = 12 then moveDiagonalBackwardRight safeSpeed s
      else if direction = 0 then stopAllMotors X (debugPrint ''Stopping all motors'' s)
      else stopAllMotors X (debugPrint ''Unknown direction code'' s))"

definition executeMovement :: "ext \<Rightarrow> int \<Rightarrow> int \<Rightarrow> state \<Rightarrow> state" where
  "executeMovement X direction desiredSpeed s =
     (if masterOverrideActive s then debugPrint ''MOVEMENT_BLOCKED:MASTER_OVERRIDE'' s
      else if movementBlocked direction s then reportBlocked direction s
      else performMovement X direction (safeSpeedFor direction desiredSpeed s)
             (reportAdjusted desiredSpeed (safeSpeedFor direction desiredSpeed s) s))"

subsection \<open>The tag-tracking variant: motors and holonomic mapper\<close>

definition moveMotor_tag :: "Wheel \<Rightarrow> Direction \<Rightarrow> real \<Rightarrow> state \<Rightarrow> state" where
  "moveMotor_tag m dir targetSpeed0 s =
     (let s1 = logCmd m dir targetSpeed0 s;
          targetSpeed = constrain targetSpeed0 0 (real_of_int (MAX_SPEED s1));
          s2 = setCurrentSpeed m (accelLimit (MAX_SPEED s1) (currentSpeed s1 m) targetSpeed) s1;
          speed = c_int (currentSpeed s2 m)
      in case dir of
           FORWARD \<Rightarrow> analogWrite m LPWM 0 (analogWrite m RPWM speed s2)
         | BACKWARD \<Rightarrow> analogWrite m LPWM speed (analogWrite m RPWM 0 s2)
         | STOP \<Rightarrow> setCurrentSpeed m 0 (analogWrite m LPWM 0 (analogWrite m RPWM 0 s2)))"

definition stopAllMotors_tag :: "state \<Rightarrow> state" where
  "stopAllMotors_tag s = moveMotor_tag BACK STOP 0 (moveMotor_tag RIGHT STOP 0 (moveMotor_tag LEFT STOP 0 s))"

definition rawWheelSpeeds :: "real \<Rightarrow> real \<Rightarrow> real \<Rightarrow> real \<times> real \<times> real" where
  \<comment> \<open>\<^verbatim>\<open>moveRobot\<close>: the holonomic drive equations (left, right, back)\<close>
  "rawWheelSpeeds vy vx omega =
     (- 0.5 * vx - 0.866 * vy + omega, - 0.5 * vx + 0.866 * vy + omega, vx + omega)"

definition normalizeWheelSpeeds :: "real \<times> real \<times> real \<Rightarrow> real \<times> real \<times> real" where
  \<comment> \<open>\<^verbatim>\<open>moveRobot\<close>: "Scale speeds to fit within [-1, 1]"\<close>
  "normalizeWheelSpeeds w =
     (case w of (leftSpeed, rightSpeed, backSpeed) \<Rightarrow>
        (let maxSpeed = max (c_abs leftSpeed) (max (c_abs rightSpeed) (c_abs backSpeed))
         in if maxSpeed > 1.0
            then (leftSpeed / maxSpeed, rightSpeed / maxSpeed, backSpeed / maxSpeed)
            else (leftSpeed, rightSpeed, backSpeed)))"

definition DEADBAND :: real where
  "DEADBAND = 0.1"

definition deadband :: "real \<Rightarrow> real" where
  \<comment> \<open>\<^verbatim>\<open>(abs(x) < DEADBAND) ? 0 : x\<close>\<close>
  "deadband x = (if c_abs x < DEADBAND then 0 else x)"

definition wheelSpeeds :: "real \<Rightarrow> real \<Rightarrow> real \<Rightarrow> real \<times> real \<times> real" where
  \<comment> \<open>\<^verbatim>\<open>moveRobot\<close> from the clamping of its arguments to the deadband\<close>
  "wheelSpeeds vy0 vx0 omega0 =
     (let vy = constrain vy0 (-1.0) 1.0;
          vx = constrain vx0 (-1.0) 1.0;
          omega = constrain omega0 (-1.0) 1.0
      in case normalizeWheelSpeeds (rawWheelSpeeds vy vx omega) of
           (leftSpeed, rightSpeed, backSpeed) \<Rightarrow>
             (deadband leftSpeed, deadband rightSpeed, deadband backSpeed))"

definition wheelPWM :: "state \<Rightarrow> real \<Rightarrow> real \<Rightarrow> real \<Rightarrow> int" where
  \<comment> \<open>\<^verbatim>\<open>moveRobot\<close>: a wheel's duty cycle from its signed speed and the clearances that
      count when the speed is positive (\<open>dpos\<close>) or negative (\<open>dneg\<close>)\<close>
  "wheelPWM s speed dpos dneg =
     (let pwm0 = c_int (c_abs speed * real_of_int (MAX_SPEED s))
      in if speed > 0 then c_int (calculateDynamicSpeed_tag s dpos (real_of_int pwm0))
         else if speed < 0 then c_int (calculateDynamicSpeed_tag s dneg (real_of_int pwm0))
         else pwm0)"

definition moveRobot :: "real \<Rightarrow> real \<Rightarrow> real \<Rightarrow> state \<Rightarrow> state" where
  "moveRobot vy vx omega s =
     (case wheelSpeeds vy vx omega of
        (leftSpeed, rightSpeed, backSpeed) \<Rightarrow>
          (let forwardDist = min (min (distFL s) (distF s)) (distFR s);
               backwardDist = min (min (distBL s) (distB s)) (distBR s);
               leftDist = min (distFL s) (distBL s);
               rightDist = min (distFR s) (distBR s);
               leftPWM = wheelPWM s leftSpeed (min forwardDist leftDist) (min backwardDist rightDist);
               rightPWM = wheelPWM s rightSpeed (min forwardDist rightDist) (min backwardDist leftDist);
               backPWM = wheelPWM s backSpeed rightDist leftDist;
               leftDir = (if leftSpeed \<ge> 0 then FORWARD else BACKWARD);
               rightDir = (if rightSpeed \<ge> 0 then FORWARD else BACKWARD);
               backDir = (if backSpeed \<ge> 0 then FORWARD else BACKWARD)
           in moveMotor_tag BACK backDir (real_of_int backPWM)
                (moveMotor_tag RIGHT rightDir (real_of_int rightPWM)
                  (moveMotor_tag LEFT leftDir (real_of_int leftPWM) s))))"

definition gateVelocity :: "state \<Rightarrow> real \<Rightarrow> real \<Rightarrow> real \<times> real" where
  \<comment> \<open>\<^verbatim>\<open>safeRobotMove\<close>: the axis vetoes; returns the \<^verbatim>\<open>vy\<close> and \<^verbatim>\<open>vx\<close> handed to \<^verbatim>\<open>moveRobot\<close>\<close>
  "gateVelocity s vy vx =
     (let forwardDist = min (min (distFL s) (distF s)) (distFR s);
          backwardDist = min (min (distBL s) (distB s)) (distBR s);
          leftDist = min (distFL s) (distBL s);
          rightDist = min (distFR s) (distBR s);
          vy' = (if vy > 0 \<and> forwardDist < CRITICAL_DISTANCE_tag then 0
                 else if vy < 0 \<and> backwardDist < CRITICAL_DISTANCE_tag then 0
                 else vy);
          vx' = (if vx > 0 \<and> rightDist < CRITICAL_DISTANCE_tag then 0
                 else if vx < 0 \<and> leftDist < CRITICAL_DISTANCE_tag then 0
                 else vx)
      in (vy', vx'))"

definition safeRobotMove :: "real \<Rightarrow> real \<Rightarrow> real \<Rightarrow> state \<Rightarrow> state" where
  "safeRobotMove vy vx omega s =
     (if emergencyStop s then stopAllMotors_tag s
      else (case gateVelocity s vy vx of (vy', vx') \<Rightarrow> moveRobot vy' vx' omega s))"

subsection \<open>Command protocol: scanning numbers\<close>

text \<open>
  \<^verbatim>\<open>sscanf\<close> belongs to the C library. The model follows the C standard for the three
  formats the sketch uses. \<^verbatim>\<open>%d\<close> skips white space, reads an optional sign and at least
  one decimal digit, and stores the value in an \<^verbatim>\<open>int\<close>: a value outside the range of
  \<^verbatim>\<open>int\<close> wraps around modulo \<open>2\<^sup>w\<close>, for the width \<open>w\<close> of the platform's \<^verbatim>\<open>int\<close> (16 bits on
  the AVR boards, 32 on the others the sketch compiles for). \<^verbatim>\<open>%f\<close> accepts what
  \<^verbatim>\<open>strtod\<close> accepts: decimal notation with an optional exponent, hexadecimal notation
  with an optional binary exponent, and, in any letter case, \<^verbatim>\<open>inf\<close>, \<^verbatim>\<open>infinity\<close>, \<^verbatim>\<open>nan\<close>
  and \<^verbatim>\<open>nan(...)\<close>. A literal comma must match; the conversions stop at the first failure.
  The result lists the values converted, so its length is the count that \<^verbatim>\<open>sscanf\<close>
  returns (an input failure before the first conversion, \<^verbatim>\<open>EOF\<close>, shows as the empty
  list).
\<close>

definition wrapInt :: "nat \<Rightarrow> int \<Rightarrow> int" where
  \<comment> \<open>the value of a two's-complement \<^verbatim>\<open>int\<close> of \<open>w\<close> bits that holds \<open>n\<close> modulo \<open>2\<^sup>w\<close>\<close>
  "wrapInt w n = (n + 2 ^ (w - 1)) mod 2 ^ w - 2 ^ (w - 1)"

definition isspace :: "char \<Rightarrow> bool" where
  "isspace c = (c = CHR '' '' \<or> c = CHR 0x09 \<or> c = CHR 0x0A \<or> c = CHR 0x0B
                \<or> c = CHR 0x0C \<or> c = CHR 0x0D)"

definition isdigit :: "char \<Rightarrow> bool" where
  "isdigit c = (c \<in> set ''0123456789'')"

definition digitVal :: "char \<Rightarrow> int" where
  "digitVal c = int (of_char c) - 48"

definition decimal :: "string \<Rightarrow> int" where
  "decimal ds = foldl (\<lambda>n c. 10 * n + digitVal c) 0 ds"

definition tolower :: "char \<Rightarrow> char" where
  "tolower c = (if c \<in> set ''ABCDEFGHIJKLMNOPQRSTUVWXYZ'' then char_of (of_char c + (32 :: nat)) else c)"

definition isxdigit :: "char \<Rightarrow> bool" where
  "isxdigit c = (isdigit c \<or> tolower c \<in> set ''abcdef'')"

definition xdigitVal :: "char \<Rightarrow> int" where
  "xdigitVal c = (if isdigit c then digitVal c else int (of_char (tolower c)) - 87)"

definition hexadecimal :: "string \<Rightarrow> int" where
  "hexadecimal ds = foldl (\<lambda>n c. 16 * n + xdigitVal c) 0 ds"

definition startsWith :: "string \<Rightarrow> string \<Rightarrow> bool" where
  \<comment> \<open>\<open>cs\<close> starts with the lower-case word \<open>w\<close>, in any letter case\<close>
  "startsWith w cs = (map tolower (take (length w) cs) = w)"

definition scanSign :: "string \<Rightarrow> int \<times> string" where
  "scanSign cs =
     (case cs of
        c # r \<Rightarrow> if c = CHR ''-'' then (- 1, r) else if c = CHR ''+'' then (1, r) else (1, cs)
      | [] \<Rightarrow> (1, cs))"

definition scanInt :: "nat \<Rightarrow> string \<Rightarrow> (int \<times> string) option" where
  \<comment> \<open>the conversion \<^verbatim>\<open>%d\<close> into an \<^verbatim>\<open>int\<close> of \<open>w\<close> bits: the value stored and the rest of
      the input\<close>
  "scanInt w cs =
     (case scanSign (dropWhile isspace cs) of
        (sg, r) \<Rightarrow>
          (let ds = takeWhile isdigit r
           in if ds = [] then None
              else Some (wrapInt w (sg * decimal ds), dropWhile isdigit r)))"

definition scanExponent :: "real \<Rightarrow> char \<Rightarrow> string \<Rightarrow> real \<times> string" where
  \<comment> \<open>the optional exponent part of \<^verbatim>\<open>%f\<close>, marked by the letter \<open>mark\<close> and to the base
      \<open>b\<close>: the factor and the rest of the input\<close>
  "scanExponent b mark cs =
     (case cs of
        e # r \<Rightarrow>
          (if tolower e = mark
           then (case scanSign r of
                   (esg, r1) \<Rightarrow>
                     (let ed = takeWhile isdigit r1
                      in if ed = [] then (1, cs)
                         else (if esg < 0 then 1 / b ^ nat (decimal ed) else b ^ nat (decimal ed),
                               dropWhile isdigit r1)))
           else (1, cs))
      | [] \<Rightarrow> (1, cs))"

definition scanFraction :: "(char \<Rightarrow> bool) \<Rightarrow> string \<Rightarrow> string \<times> string" where
  \<comment> \<open>the digits after a decimal point, if there is one, and the rest of the input\<close>
  "scanFraction dig cs =
     (case cs of
        c # r \<Rightarrow> if c = CHR ''.'' then (takeWhile dig r, dropWhile dig r) else ([], cs)
      | [] \<Rightarrow> ([], cs))"

definition scanDecimalFloat :: "string \<Rightarrow> (real \<times> string) option" where
  \<comment> \<open>decimal notation, after the sign\<close>
  "scanDecimalFloat r =
     (let ip = takeWhile isdigit r
      in case scanFraction isdigit (dropWhile isdigit r) of
           (fp, r1) \<Rightarrow>
             (if ip = [] \<and> fp = [] then None
              else (case scanExponent 10 (CHR ''e'') r1 of
                      (f, r2) \<Rightarrow>
                        Some ((real_of_int (decimal ip)
                                + real_of_int (decimal fp) / 10 ^ length fp) * f, r2))))"

definition scanHexFloat :: "string \<Rightarrow> (real \<times> string) option" where
  \<comment> \<open>hexadecimal notation, after the sign and the prefix \<^verbatim>\<open>0x\<close>\<close>
  "scanHexFloat r =
     (let ip = takeWhile isxdigit r
      in case scanFraction isxdigit (dropWhile isxdigit r) of
           (fp, r1) \<Rightarrow>
             (if ip = [] \<and> fp = [] then None
              else (case scanExponent 2 (CHR ''p'') r1 of
                      (f, r2) \<Rightarrow>
                        Some ((real_of_int (hexadecimal ip)
                                + real_of_int (hexadecimal fp) / 16 ^ length fp) * f, r2))))"

definition skipNanChars :: "string \<Rightarrow> string" where
  \<comment> \<open>the optional \<^verbatim>\<open>(n-char-sequence)\<close> after \<^verbatim>\<open>nan\<close>\<close>
  "skipNanChars cs =
     (case cs of
        c # r \<Rightarrow>
          (if c = CHR ''(''
           then (case dropWhile (\<lambda>d. isdigit d \<or> tolower d \<in> set ''abcdefghijklmnopqrstuvwxyz_'') r of
                   d # r1 \<Rightarrow> if d = CHR '')'' then r1 else cs
                 | [] \<Rightarrow> cs)
           else cs)
      | [] \<Rightarrow> cs)"

definition scanFloat :: "string \<Rightarrow> (cfloat \<times> string) option" where
  \<comment> \<open>the conversion \<^verbatim>\<open>%f\<close>\<close>
  "scanFloat cs =
     (case scanSign (dropWhile isspace cs) of
        (sg, r) \<Rightarrow>
          (if startsWith ''infinity'' r
             then Some (if sg < 0 then MinusInfinity else Infinity, drop 8 r)
           else if startsWith ''inf'' r
             then Some (if sg < 0 then MinusInfinity else Infinity, drop 3 r)
           else if startsWith ''nan'' r then Some (NotANumber, skipNanChars (drop 3 r))
           else (case (if startsWith ''0x'' r then scanHexFloat (drop 2 r) else None) of
                   Some (v, r1) \<Rightarrow> Some (Finite (real_of_int sg * v), r1)
                 | None \<Rightarrow>
                     (case scanDecimalFloat r of
                        Some (v, r1) \<Rightarrow> Some (Finite (real_of_int sg * v), r1)
                      | None \<Rightarrow> None))))"

definition expectComma :: "string \<Rightarrow> string option" where
  "expectComma cs = (case cs of c # r \<Rightarrow> if c = CHR '','' then Some r else None | [] \<Rightarrow> None)"

definition sscanf_d :: "nat \<Rightarrow> string \<Rightarrow> int list" where
  \<comment> \<open>\<^verbatim>\<open>sscanf(params, "%d", &a)\<close>\<close>
  "sscanf_d w cs = (case scanInt w cs of None \<Rightarrow> [] | Some (a, _) \<Rightarrow> [a])"

definition sscanf_d_d :: "nat \<Rightarrow> string \<Rightarrow> int list" where
  \<comment> \<open>\<^verbatim>\<open>sscanf(params, "%d,%d", &a, &b)\<close>\<close>
  "sscanf_d_d w cs =
     (case scanInt w cs of
        None \<Rightarrow> []
      | Some (a, r) \<Rightarrow>
          (case expectComma r of
             None \<Rightarrow> [a]
           | Some r1 \<Rightarrow> (case scanInt w r1 of None \<Rightarrow> [a] | Some (b, _) \<Rightarrow> [a, b])))"

definition sscanf_d_f_d_d :: "nat \<Rightarrow> string \<Rightarrow> (int \<times> cfloat \<times> int \<times> int) option" where
  \<comment> \<open>\<^verbatim>\<open>sscanf(params, "%d,%f,%d,%d", ...) == 4\<close> and the four values\<close>
  "sscanf_d_f_d_d w cs =
     (case scanInt w cs of
        None \<Rightarrow> None
      | Some (a, r) \<Rightarrow>
          (case expectComma r of
             None \<Rightarrow> None
           | Some r1 \<Rightarrow>
               (case scanFloat r1 of
                  None \<Rightarrow> None
                | Some (b, r2) \<Rightarrow>
                    (case expectComma r2 of
                       None \<Rightarrow> None
                     | Some r3 \<Rightarrow>
                         (case scanInt w r3 of
                            None \<Rightarrow> None
                          | Some (c, r4) \<Rightarrow>
                              (case expectComma r4 of
                                 None \<Rightarrow> None
                               | Some r5 \<Rightarrow>
                                   (case scanInt w r5 of
                                      None \<Rightarrow> None
                                    | Some (d, _) \<Rightarrow> Some (a, b, c, d))))))))"

subsection \<open>Command protocol: the dispatcher \<^verbatim>\<open>parseCommand\<close>\<close>

datatype error = BufferOverflow
  \<comment> \<open>\<^verbatim>\<open>strcpy\<close> or \<^verbatim>\<open>strncpy\<close> writes past the end of \<^verbatim>\<open>command[16]\<close> or \<^verbatim>\<open>params[48]\<close>:
      undefined behaviour in C\<close>

definition COMMAND_BUFFER_SIZE :: nat where
  "COMMAND_BUFFER_SIZE = 64"

definition println :: "string \<Rightarrow> state \<Rightarrow> state" where
  "println x s = say (Println (Str x)) s"

definition splitCommand :: "string \<Rightarrow> error + string \<times> string" where
  \<comment> \<open>the split on the first colon into \<^verbatim>\<open>command[16]\<close> and \<^verbatim>\<open>params[COMMAND_BUFFER_SIZE - 16]\<close>;
      a string of \<open>n\<close> characters needs \<open>n + 1\<close> bytes\<close>
  "splitCommand cmd =
     (if CHR '':'' \<in> set cmd
      then (let command = takeWhile (\<lambda>c. c \<noteq> CHR '':'') cmd;
                params = tl (dropWhile (\<lambda>c. c \<noteq> CHR '':'') cmd)
            in if length command < 16 \<and> length params < COMMAND_BUFFER_SIZE - 16
               then Inr (command, params) else Inl BufferOverflow)
      else if length cmd < 16 then Inr (cmd, []) else Inl BufferOverflow)"

definition testMotors :: "state \<Rightarrow> state" where
  \<comment> \<open>the delays between the steps are not represented\<close>
  "testMotors s =
     (let testSpeed = 60;
          s1 = analogWrite LEFT LPWM 0 (analogWrite LEFT RPWM 0
                 (analogWrite LEFT LPWM 0 (analogWrite LEFT RPWM testSpeed
                   (println ''<TESTING LEFT MOTOR FORWARD>'' s))));
          s2 = analogWrite LEFT LPWM 0 (analogWrite LEFT RPWM 0
                 (analogWrite LEFT LPWM testSpeed (analogWrite LEFT RPWM 0
                   (println ''<TESTING LEFT MOTOR BACKWARD>'' s1))));
          s3 = moveMotor LEFT STOP 0 (moveMotor LEFT BACKWARD (real_of_int testSpeed)
                 (moveMotor LEFT STOP 0 (moveMotor LEFT FORWARD (real_of_int testSpeed)
                   (println ''<TESTING LEFT MOTOR WITH MOVEMOTOR>'' s2))));
          s4 = moveMotor RIGHT STOP 0 (moveMotor RIGHT BACKWARD (real_of_int testSpeed)
                 (moveMotor RIGHT STOP 0 (moveMotor RIGHT FORWARD (real_of_int testSpeed)
                   (println ''<TESTING RIGHT MOTOR>'' s3))));
          s5 = moveMotor BACK STOP 0 (moveMotor BACK BACKWARD (real_of_int testSpeed)
                 (moveMotor BACK STOP 0 (moveMotor BACK FORWARD (real_of_int testSpeed)
                   (println ''<TESTING BACK MOTOR>'' s4))))
      in println ''<INFO:DEBUG mode can be deactivated with command 'DEBUG:0'>''
           (println ''<INFO:DEBUG mode can be activated with command 'DEBUG:1'>''
             (println ''<MOTOR TEST COMPLETE>'' s5)))"

definition clearIf :: "bool \<Rightarrow> (state \<Rightarrow> state) \<Rightarrow> string \<Rightarrow> bool \<times> state \<Rightarrow> bool \<times> state" where
  \<comment> \<open>\<^verbatim>\<open>if (cond) { flag = false; clearedAny = true; if (DEBUG_MODE) Serial.println(msg); }\<close>\<close>
  "clearIf cond clr msg cs =
     (case cs of (clearedAny, s) \<Rightarrow>
        if cond then (True, (if DEBUG_MODE s then println msg (clr s) else clr s))
        else (clearedAny, s))"

definition frontClear :: "state \<Rightarrow> bool" where
  "frontClear s = (distF s > SAFE_DISTANCE \<and> distFL s > SAFE_DISTANCE \<and> distFR s > SAFE_DISTANCE)"

definition backClear :: "state \<Rightarrow> bool" where
  "backClear s = (distB s > SAFE_DISTANCE \<and> distBL s > SAFE_DISTANCE \<and> distBR s > SAFE_DISTANCE)"

definition leftClear :: "state \<Rightarrow> bool" where
  "leftClear s = (distFL s > SAFE_DISTANCE \<and> distBL s > SAFE_DISTANCE)"

definition rightClear :: "state \<Rightarrow> bool" where
  "rightClear s = (distFR s > SAFE_DISTANCE \<and> distBR s > SAFE_DISTANCE)"

definition clearAll :: "state \<Rightarrow> bool \<times> state" where
  \<comment> \<open>the four conditional clears shared by \<^verbatim>\<open>CLEAR:ALL\<close> and the plain \<^verbatim>\<open>STOP\<close>\<close>
  "clearAll s =
     (let c1 = clearIf (frontEmergencyStop s \<and> frontClear s)
                 (\<lambda>t. t\<lparr>frontEmergencyStop := False\<rparr>) ''<CLEARED:FRONT_EMERGENCY>'' (False, s);
          c2 = clearIf (backEmergencyStop s \<and> backClear s)
                 (\<lambda>t. t\<lparr>backEmergencyStop := False\<rparr>) ''<CLEARED:BACK_EMERGENCY>'' c1;
          c3 = clearIf (leftEmergencyStop s \<and> leftClear s)
                 (\<lambda>t. t\<lparr>leftEmergencyStop := False\<rparr>) ''<CLEARED:LEFT_EMERGENCY>'' c2
      in clearIf (rightEmergencyStop s \<and> rightClear s)
           (\<lambda>t. t\<lparr>rightEmergencyStop := False\<rparr>) ''<CLEARED:RIGHT_EMERGENCY>'' c3)"

definition ackStop :: "bool \<Rightarrow> bool \<times> state \<Rightarrow> state" where
  \<comment> \<open>the acknowledgment after the four clears; \<open>plain\<close> tells the plain \<^verbatim>\<open>STOP\<close> from \<^verbatim>\<open>CLEAR:ALL\<close>\<close>
  "ackStop plain cs =
     (case cs of (clearedAny, t) \<Rightarrow>
        if clearedAny then println ''<ACK:STOP:EMERGENCY_PARTLY_CLEARED>'' t
        else if plain then
          (if emergencyStop t then println ''<ACK:STOP:EMERGENCY_ACTIVE>'' t
           else println ''<ACK:STOP>'' t)
        else println ''<ACK:STOP:NO_CHANGE>'' t)"

definition handleStop :: "ext \<Rightarrow> string \<Rightarrow> state \<Rightarrow> state" where
  \<comment> \<open>the \<^verbatim>\<open>STOP\<close> / \<^verbatim>\<open>CLEAR\<close> handler\<close>
  "handleStop X params s0 =
     (let s = stopAllMotors X s0;
          s1 =
            (if params \<noteq> [] then
               (if params = ''FRONT'' \<and> frontClear s
                  then snd (clearIf True (\<lambda>t. t\<lparr>frontEmergencyStop := False\<rparr>)
                              ''<CLEARED:FRONT_EMERGENCY>'' (False, s))
                else if params = ''BACK'' \<and> backClear s
                  then snd (clearIf True (\<lambda>t. t\<lparr>backEmergencyStop := False\<rparr>)
                              ''<CLEARED:BACK_EMERGENCY>'' (False, s))
                else if params = ''LEFT'' \<and> leftClear s
                  then snd (clearIf True (\<lambda>t. t\<lparr>leftEmergencyStop := False\<rparr>)
                              ''<CLEARED:LEFT_EMERGENCY>'' (False, s))
                else if params = ''RIGHT'' \<and> rightClear s
                  then snd (clearIf True (\<lambda>t. t\<lparr>rightEmergencyStop := False\<rparr>)
                              ''<CLEARED:RIGHT_EMERGENCY>'' (False, s))
                else if params = ''ALL'' then ackStop False (clearAll s)
                else println ''<ERR:Invalid CLEAR direction>'' s)
             else ackStop True (clearAll s))
      in emergencyStop_update
           (\<lambda>_. frontEmergencyStop s1 \<or> backEmergencyStop s1 \<or> leftEmergencyStop s1
                 \<or> rightEmergencyStop s1) s1)"

definition handleROT :: "ext \<Rightarrow> string \<Rightarrow> state \<Rightarrow> state" where
  "handleROT X params s =
     (case sscanf_d_d (intBits X) params of
        [direction, speed0] \<Rightarrow>
          (let speed = constrain speed0 (MIN_SPEED s) MAX_ROTATION_SPEED
           in if direction = 1 then println ''<ACK:ROT:LEFT>'' (rotateLeft speed s)
              else if direction = 2 then println ''<ACK:ROT:RIGHT>'' (rotateRight speed s)
              else println ''<ERR:Invalid rotation direction>'' (stopAllMotors X s))
      | _ \<Rightarrow> println ''<ERR:Invalid ROT params>'' s)"

definition setSpeedLimits :: "int \<Rightarrow> int \<Rightarrow> state \<Rightarrow> state" where
  \<comment> \<open>\<^verbatim>\<open>MAX_SPEED = constrain(max_speed, 50, 255); MIN_SPEED = constrain(min_speed, 30, MAX_SPEED - 5);\<close>\<close>
  "setSpeedLimits max_speed min_speed s =
     s\<lparr>MAX_SPEED := constrain max_speed 50 255,
       MIN_SPEED := constrain min_speed 30 (constrain max_speed 50 255 - 5)\<rparr>"

definition handleSPEED :: "ext \<Rightarrow> string \<Rightarrow> state \<Rightarrow> state" where
  "handleSPEED X params s =
     (case sscanf_d_d (intBits X) params of
        [max_speed, min_speed] \<Rightarrow>
          (let s2 = setSpeedLimits max_speed min_speed s
           in say (Println (Str ''>'')) (say (Print (Num (MIN_SPEED s2)))
                (say (Print (Str '','')) (say (Print (Num (MAX_SPEED s2)))
                  (say (Print (Str ''<ACK:SPEED:'')) s2)))))
      | _ \<Rightarrow> println ''<ERR:Invalid SPEED params>'' s)"

definition printDistances :: "state \<Rightarrow> state" where
  \<comment> \<open>the six distances, comma separated, and the closing line of \<^verbatim>\<open>SENS\<close> and \<^verbatim>\<open>STATUS\<close>\<close>
  "printDistances s =
     s\<lparr>serial := serial s @
          [Print (Flt (Finite (distFL s))), Print (Str '',''), Print (Flt (Finite (distF s))), Print (Str '',''),
           Print (Flt (Finite (distFR s))), Print (Str '',''), Print (Flt (Finite (distBL s))), Print (Str '',''),
           Print (Flt (Finite (distB s))), Print (Str '',''), Print (Flt (Finite (distBR s))), Println (Str ''>'')]\<rparr>"

definition handleMODE :: "ext \<Rightarrow> string \<Rightarrow> state \<Rightarrow> state" where
  "handleMODE X params s =
     (case sscanf_d (intBits X) params of
        [mode] \<Rightarrow>
          (if mode = 0 \<or> mode = 1
           then say (Println (Str ''>''))
                  (say (Print (Str (if mode = 1 then ''THREE_WHEEL'' else ''TWO_WHEEL'')))
                    (say (Print (Str ''<ACK:MODE:'')) (s\<lparr>useThreeWheels := (mode = 1)\<rparr>)))
           else println ''<ERR:Invalid mode value (use 0 or 1)>'' s)
      | _ \<Rightarrow> println ''<ERR:Invalid MODE param>'' s)"

definition debugReport :: "ext \<Rightarrow> state \<Rightarrow> state" where
  \<comment> \<open>the diagnostic block of the \<^verbatim>\<open>DEBUG\<close> handler\<close>
  "debugReport X s =
     debugPrintV (Fmt ''OVERRIDE_PIN_STATE:%s''
        [AStr (if overridePinLow X then ''LOW(ACTIVE)'' else ''HIGH(INACTIVE)'')])
      (debugPrint (if enableObstacleAvoidance s then ''OBSTACLE_AVOIDANCE:ENABLED''
                   else ''OBSTACLE_AVOIDANCE:DISABLED'')
        (debugPrint (if useThreeWheels s then ''MODE:THREE_WHEEL'' else ''MODE:TWO_WHEEL'')
          (debugPrint (if masterOverrideActive s then ''MASTER_OVERRIDE:ACTIVE''
                       else ''MASTER_OVERRIDE:INACTIVE'')
            (debugPrintV (Fmt ''Emergency: F=%d B=%d L=%d R=%d''
                 [AInt (if frontEmergencyStop s then 1 else 0),
                  AInt (if backEmergencyStop s then 1 else 0),
                  AInt (if leftEmergencyStop s then 1 else 0),
                  AInt (if rightEmergencyStop s then 1 else 0)])
              (debugPrintV (Fmt ''Distances: FL=%.1f F=%.1f FR=%.1f BL=%.1f B=%.1f BR=%.1f''
                   [AReal (distFL s), AReal (distF s), AReal (distFR s),
                    AReal (distBL s), AReal (distB s), AReal (distBR s)])
                (println ''<DEBUG:===================>''
                  (println ''<DEBUG:Module information>'' s)))))))"

definition handleDEBUG :: "ext \<Rightarrow> string \<Rightarrow> state \<Rightarrow> state" where
  "handleDEBUG X params s =
     (case sscanf_d (intBits X) params of
        [mode] \<Rightarrow>
          (let s2 = say (Println (Str ''>''))
                      (say (Print (Str (if mode = 1 then ''ENABLED'' else ''DISABLED'')))
                        (say (Print (Str ''<ACK:DEBUG:'')) (s\<lparr>DEBUG_MODE := (mode = 1)\<rparr>)))
           in if mode = 1 then debugReport X s2 else s2)
      | _ \<Rightarrow> say (Println (Str ''>''))
               (say (Print (Str (if DEBUG_MODE s then ''ENABLED'' else ''DISABLED'')))
                 (say (Print (Str ''<ACK:DEBUG_STATUS:'')) s)))"

definition resetAvoidance :: "state \<Rightarrow> state" where
  \<comment> \<open>\<^verbatim>\<open>if (avoidanceState != IDLE) { avoidanceState = IDLE; avoidanceAttempts = 0; avoidanceSuccessful = false; }\<close>\<close>
  "resetAvoidance s =
     (if avoidanceState s \<noteq> IDLE
      then s\<lparr>avoidanceState := IDLE, avoidanceAttempts := 0, avoidanceSuccessful := False\<rparr>
      else s)"

definition handleAVOID :: "ext \<Rightarrow> string \<Rightarrow> state \<Rightarrow> state" where
  "handleAVOID X params s =
     (case sscanf_d (intBits X) params of
        [mode] \<Rightarrow>
          debugPrint (if mode = 1
                      then ''OBSTACLE_AVOIDANCE:ENABLED - Robot will try to navigate around obstacles''
                      else ''OBSTACLE_AVOIDANCE:DISABLED - Robot will stop at obstacles'')
            (say (Println (Str ''>''))
              (say (Print (Str (if mode = 1 then ''ENABLED'' else ''DISABLED'')))
                (say (Print (Str ''<ACK:AVOID:''))
                  (resetAvoidance (s\<lparr>enableObstacleAvoidance := (mode = 1)\<rparr>)))))
      | _ \<Rightarrow> say (Println (Str ''>''))
               (say (Print (Str (if enableObstacleAvoidance s then ''ENABLED'' else ''DISABLED'')))
                 (say (Print (Str ''<ACK:AVOID_STATUS:'')) s)))"

definition handleSTATUS :: "state \<Rightarrow> state" where
  "handleSTATUS s =
     printDistances (say (Print (Str '':''))
       (if frontEmergencyStop s \<or> backEmergencyStop s \<or> leftEmergencyStop s \<or> rightEmergencyStop s
        then say (Print (Str (if rightEmergencyStop s then ''R'' else [])))
               (say (Print (Str (if leftEmergencyStop s then ''L'' else [])))
                 (say (Print (Str (if backEmergencyStop s then ''B'' else [])))
                   (say (Print (Str (if frontEmergencyStop s then ''F'' else [])))
                     (say (Print (Str ''EMERGENCY:'')) (say (Print (Str ''<ACK:STATUS:'')) s)))))
        else say (Print (Str ''NORMAL'')) (say (Print (Str ''<ACK:STATUS:'')) s)))"

definition tagEcho :: "int \<Rightarrow> cfloat \<Rightarrow> int \<Rightarrow> state \<Rightarrow> state" where
  \<comment> \<open>the debug echo of the \<^verbatim>\<open>TAG\<close> handler\<close>
  "tagEcho tagId distance desiredSpeed s =
     (if DEBUG_MODE s
      then say (Println (Str ''>'')) (say (Print (Num desiredSpeed))
             (say (Print (Str '',desiredSpeed='')) (say (Print (Flt distance))
               (say (Print (Str '',D='')) (say (Print (Num tagId))
                 (say (Print (Str ''<TAG:ID='')) s))))))
      else s)"

definition handleTAG :: "ext \<Rightarrow> 32 word \<Rightarrow> string \<Rightarrow> state \<Rightarrow> state" where
  "handleTAG X now params s =
     (case sscanf_d_f_d_d (intBits X) params of
        Some (tagId, distance, direction, desiredSpeed) \<Rightarrow>
          println ''<ACK:TAG>''
            (executeMovement X direction desiredSpeed
              (tagEcho tagId distance desiredSpeed (s\<lparr>lastTagUpdate := now\<rparr>)))
      | None \<Rightarrow> println ''<ERR:Invalid TAG params>'' s)"

definition handleKey :: "ext \<Rightarrow> char \<Rightarrow> state \<Rightarrow> state option" where
  \<comment> \<open>the single-character keys; \<open>None\<close> when the \<^verbatim>\<open>switch\<close> has no case for the key\<close>
  "handleKey X k s =
     (if k = CHR ''W'' then Some (println ''<ACK:FORWARD>'' (executeMovement X 1 (MAX_SPEED s) s))
      else if k = CHR ''S'' then Some (println ''<ACK:BACKWARD>'' (executeMovement X 2 (MAX_SPEED s) s))
      else if k = CHR ''A'' then Some (println ''<ACK:ARC_LEFT>'' (executeMovement X 3 (MAX_SPEED s) s))
      else if k = CHR ''D'' then Some (println ''<ACK:ARC_RIGHT>'' (executeMovement X 4 (MAX_SPEED s) s))
      else if k = CHR ''Q'' then Some (println ''<ACK:ROTATE_LEFT>'' (executeMovement X 5 (MAX_SPEED s) s))
      else if k = CHR ''E'' then Some (println ''<ACK:ROTATE_RIGHT>'' (executeMovement X 6 (MAX_SPEED s) s))
      else if k = CHR ''4'' then Some (println ''<ACK:SLIDE_LEFT>'' (executeMovement X 7 (MAX_SPEED s) s))
      else if k = CHR ''6'' then Some (println ''<ACK:SLIDE_RIGHT>'' (executeMovement X 8 (MAX_SPEED s) s))
      else if k = CHR ''7'' then Some (println ''<ACK:DIAG_FORWARD_LEFT>'' (executeMovement X 9 (MAX_SPEED s) s))
      else if k = CHR ''9'' then Some (println ''<ACK:DIAG_FORWARD_RIGHT>'' (executeMovement X 10 (MAX_SPEED s) s))
      else if k = CHR ''1'' then Some (println ''<ACK:DIAG_BACKWARD_LEFT>'' (executeMovement X 11 (MAX_SPEED s) s))
      else if k = CHR ''3'' then Some (println ''<ACK:DIAG_BACKWARD_RIGHT>'' (executeMovement X 12 (MAX_SPEED s) s))
      else if k = CHR ''5'' then Some (println ''<ACK:STOP>'' (executeMovement X 0 0 s))
      else None)"

definition unknownCommand :: "string \<Rightarrow> state \<Rightarrow> state" where
  "unknownCommand command s =
     say (Println (Str ''>'')) (say (Print (Str command)) (say (Print (Str ''<ERR:Unknown command '')) s))"

definition dispatch :: "ext \<Rightarrow> 32 word \<Rightarrow> string \<Rightarrow> string \<Rightarrow> state \<Rightarrow> state" where
  \<comment> \<open>the chain of \<^verbatim>\<open>strcmp\<close> tests of \<^verbatim>\<open>parseCommand\<close>, in the order of the source\<close>
  "dispatch X now command params s =
     (if command = ''TEST'' then println ''<ACK:TEST>'' (testMotors s)
      else if command = ''PING'' then println ''<ACK:PING>'' s
      else if command = ''STOP'' \<or> command = ''CLEAR'' then handleStop X params s
      else if command = ''MOV'' then
        (case sscanf_d_d (intBits X) params of
           [direction, speed] \<Rightarrow> println ''<ACK:MOV>'' (executeMovement X direction speed s)
         | _ \<Rightarrow> println ''<ERR:Invalid MOV params>'' s)
      else if command = ''ROT'' then handleROT X params s
      else if command = ''SPEED'' then handleSPEED X params s
      else if command = ''SENS'' then printDistances (say (Print (Str ''<ACK:SENS:'')) s)
      else if command = ''MODE'' then handleMODE X params s
      else if command = ''DEBUG'' then handleDEBUG X params s
      else if command = ''AVOID'' then handleAVOID X params s
      else if command = ''I2C'' then
        say (Println (Str ''>''))
          (say (Print (Str (if masterOverrideActive s then ''OVERRIDE_ACTIVE'' else ''NORMAL'')))
            (say (Print (Str ''<ACK:I2C:'')) s))
      else if command = ''STATUS'' then handleSTATUS s
      else if command = ''TAG'' then handleTAG X now params s
      else (case command of
              [k] \<Rightarrow> (case handleKey X k s of Some s' \<Rightarrow> s' | None \<Rightarrow> unknownCommand command s)
            | _ \<Rightarrow> unknownCommand command s))"

definition echoCommand :: "string \<Rightarrow> state \<Rightarrow> state" where
  \<comment> \<open>\<^verbatim>\<open>if (DEBUG_MODE) { Serial.print("Received command: "); Serial.println(cmd); }\<close>\<close>
  "echoCommand cmd s =
     (if DEBUG_MODE s
      then say (Println (Str cmd)) (say (Print (Str ''Received command: '')) s)
      else s)"

definition parseCommand :: "ext \<Rightarrow> 32 word \<Rightarrow> string \<Rightarrow> state \<Rightarrow> error + state" where
  \<comment> \<open>\<open>cmd\<close> is the C string the caller passes, \<open>now\<close> the value of \<^verbatim>\<open>millis()\<close>\<close>
  "parseCommand X now cmd s =
     (case splitCommand cmd of
        Inl e \<Rightarrow> Inl e
      | Inr (command, params) \<Rightarrow> Inr (dispatch X now command params (echoCommand cmd s)))"

subsection \<open>Command protocol: the byte-stream parser \<^verbatim>\<open>processSerialInput\<close>\<close>

definition START_MARKER :: char where
  "START_MARKER = CHR ''<''"

definition END_MARKER :: char where
  "END_MARKER = CHR ''>''"

definition ESCAPE_CHAR :: char where
  "ESCAPE_CHAR = CHR 0x5C"

record parser =
  buffer :: string
  messageStarted :: bool
  escapeNext :: bool
  bufferStartTime :: "32 word"

text \<open>
  The static variables of \<^verbatim>\<open>processSerialInput\<close>. The field \<open>buffer\<close> holds the bytes
  \<^verbatim>\<open>buffer[0 .. index - 1]\<close>, so \<^verbatim>\<open>index\<close> is its length; resetting \<^verbatim>\<open>index\<close> to 0 empties it.
  When a command is complete the C code stores a NUL at \<^verbatim>\<open>buffer[index]\<close> and passes
  the array to \<^verbatim>\<open>parseCommand\<close>, which reads it as a C string: up to the first NUL.
\<close>

definition cstring :: "string \<Rightarrow> string" where
  "cstring bs = takeWhile (\<lambda>c. c \<noteq> CHR 0x00) bs"

definition store :: "char \<Rightarrow> parser \<Rightarrow> parser" where
  \<comment> \<open>\<^verbatim>\<open>buffer[index++] = c\<close>\<close>
  "store c p = p\<lparr>buffer := buffer p @ [c]\<rparr>"

definition feed :: "char \<Rightarrow> parser \<Rightarrow> string option \<times> parser" where
  \<comment> \<open>one iteration of the \<^verbatim>\<open>while (Serial.available())\<close> loop on the byte \<open>c\<close>; the first
      component is the command handed to \<^verbatim>\<open>parseCommand\<close> in this iteration, if any\<close>
  "feed c p =
     (if \<not> messageStarted p \<and> (c = CHR 0x0A \<or> c = CHR 0x0D) then
        (if length (buffer p) > 0 then (Some (cstring (buffer p)), p\<lparr>buffer := []\<rparr>)
         else (None, p))
      else if c = START_MARKER \<and> \<not> escapeNext p then
        (None, p\<lparr>messageStarted := True, buffer := []\<rparr>)
      else if c = END_MARKER \<and> \<not> escapeNext p \<and> messageStarted p then
        (Some (cstring (buffer p)), p\<lparr>messageStarted := False, buffer := []\<rparr>)
      else if c = ESCAPE_CHAR \<and> \<not> escapeNext p then
        (None, p\<lparr>escapeNext := True\<rparr>)
      else if length (buffer p) < COMMAND_BUFFER_SIZE - 1 then
        (if escapeNext p then (None, (store c p)\<lparr>escapeNext := False\<rparr>)
         else if messageStarted p then (None, store c p)
         else if \<not> messageStarted p \<and> length (buffer p) = 0 \<and> c \<noteq> CHR '' '' then (None, store c p)
         else if \<not> messageStarted p \<and> length (buffer p) > 0 then (None, store c p)
         else (None, p))
      else (None, p))"

fun feedAll :: "string \<Rightarrow> parser \<Rightarrow> string list \<times> parser" where
  \<comment> \<open>the loop over the bytes at hand: the commands dispatched, in order, and the parser after\<close>
  "feedAll [] p = ([], p)"
| "feedAll (c # cs) p =
     (case feed c p of
        (None, p1) \<Rightarrow> feedAll cs p1
      | (Some cmd, p1) \<Rightarrow> (case feedAll cs p1 of (rest, p2) \<Rightarrow> (cmd # rest, p2)))"

fun serialLoop :: "ext \<Rightarrow> 32 word \<Rightarrow> string \<Rightarrow> parser \<Rightarrow> state \<Rightarrow> error + parser \<times> state" where
  \<comment> \<open>the same loop with each command dispatched as soon as it is complete\<close>
  "serialLoop X now [] p s = Inr (p, s)"
| "serialLoop X now (c # cs) p s =
     (case feed c p of
        (None, p1) \<Rightarrow> serialLoop X now cs p1 s
      | (Some cmd, p1) \<Rightarrow>
          (case parseCommand X now cmd s of
             Inl e \<Rightarrow> Inl e
           | Inr s1 \<Rightarrow> serialLoop X now cs p1 s1))"

definition staleReset :: "32 word \<Rightarrow> parser \<Rightarrow> state \<Rightarrow> parser \<times> state" where
  \<comment> \<open>the head of \<^verbatim>\<open>processSerialInput\<close>: the reset of a stale partial command and the
      start of the timer\<close>
  "staleReset now p s =
     (case (if length (buffer p) > 0 \<and> now - bufferStartTime p > 1000
            then (p\<lparr>buffer := [], messageStarted := False, escapeNext := False\<rparr>,
                  debugPrint ''BUFFER_TIMEOUT_RESET'' s)
            else (p, s)) of
        (p1, s1) \<Rightarrow> (if length (buffer p1) = 0 then p1\<lparr>bufferStartTime := now\<rparr> else p1, s1))"

definition processSerialInput ::
  "ext \<Rightarrow> 32 word \<Rightarrow> string \<Rightarrow> parser \<Rightarrow> state \<Rightarrow> error + parser \<times> state" where
  \<comment> \<open>one call at time \<open>now\<close> with the bytes \<open>bytes\<close> waiting in the serial receive queue\<close>
  "processSerialInput X now bytes p s =
     (case staleReset now p s of (p1, s1) \<Rightarrow> serialLoop X now bytes p1 s1)"

definition init_parser :: parser where
  "init_parser = \<lparr> buffer = [], messageStarted = False, escapeNext = False, bufferStartTime = 0 \<rparr>"

subsection \<open>Start-up states\<close>

definition init_state :: state where
  \<comment> \<open>the initialisers of the globals of the consolidated sketch; the distances, which the
      sketch leaves zero-initialised until the first sensor sweep, are set to a clear reading\<close>
  "init_state =
     \<lparr> MAX_SPEED = 100, MIN_SPEED = 50, DEBUG_MODE = False, masterOverrideActive = False,
       useThreeWheels = False, enableObstacleAvoidance = False, decelerationActive = False,
       emergencyStop = False, frontEmergencyStop = False, backEmergencyStop = False,
       leftEmergencyStop = False, rightEmergencyStop = False,
       distFL = 90, distF = 90, distFR = 90, distBL = 90, distB = 90, distBR = 90,
       currentSpeed = (\<lambda>_. 0), prevDirection = (\<lambda>_. STOP),
       avoidanceState = IDLE, avoidanceAttempts = 0, avoidanceSuccessful = False,
       lastTagUpdate = 0, pwm = [], cmds = [], serial = [] \<rparr>"

definition noExt :: ext where
  \<comment> \<open>a stand-in for the functions defined outside the sources: each leaves the state as it
      is and reports that nothing was concluded; the override pin is high and \<^verbatim>\<open>int\<close> has
      16 bits. It serves to run the model on examples.\<close>
  "noExt =
     \<lparr> navigateAroundObstacle = (\<lambda>_ s. (False, s)),
       continueObstacleAvoidance = (\<lambda>s. (False, s)),
       startSmoothDeceleration = (\<lambda>s. s),
       handleSmoothDeceleration = (\<lambda>s. s),
       emergencyStopAllMotors = (\<lambda>s. s),
       overridePinLow = False,
       intBits = 16 \<rparr>"

definition flanksBlocked :: state where
  \<comment> \<open>the state after the interlock update on obstacles 5 cm from the front-left and the
      front-right sensor\<close>
  "flanksBlocked = updateInterlocks (init_state\<lparr>distFL := 5, distFR := 5\<rparr>)"

definition frontBlocked :: state where
  \<comment> \<open>the state after the interlock update on an obstacle 5 cm from the front sensor\<close>
  "frontBlocked = updateInterlocks (init_state\<lparr>distF := 5\<rparr>)"

definition afterTag :: "error + parser \<times> state" where
  \<comment> \<open>the parser and the state after the framed command \<^verbatim>\<open>TAG:7,50.0,1,80\<close> (tag 7 at
      distance 50, direction forward, speed 80) has arrived 100 ms after start-up\<close>
  "afterTag = processSerialInput noExt 100 ''<TAG:7,50.0,1,80>'' init_parser init_state"

definition init_state_tag :: state where
  \<comment> \<open>the tag-tracking variant starts with other speed limits\<close>
  "init_state_tag = init_state\<lparr>MAX_SPEED := 150, MIN_SPEED := 100\<rparr>"

subsection \<open>Vocabulary of the specification\<close>

definition quiet :: "state \<Rightarrow> state \<Rightarrow> bool" where
  \<comment> \<open>\<open>s'\<close> differs from \<open>s\<close> at most in the serial output\<close>
  "quiet s s' = (s' = s\<lparr>serial := serial s'\<rparr>)"

definition newPwm :: "state \<Rightarrow> state \<Rightarrow> (Wheel \<times> Channel \<times> int) list" where
  \<comment> \<open>the duty cycles written between \<open>s\<close> and \<open>s'\<close>\<close>
  "newPwm s s' = drop (length (pwm s)) (pwm s')"

definition newCmds :: "state \<Rightarrow> state \<Rightarrow> (Wheel \<times> Direction \<times> real) list" where
  \<comment> \<open>the motor commands issued between \<open>s\<close> and \<open>s'\<close>\<close>
  "newCmds s s' = drop (length (cmds s)) (cmds s')"

definition startSpeed :: "state \<Rightarrow> Wheel \<Rightarrow> Direction \<Rightarrow> real" where
  \<comment> \<open>the speed from which \<^verbatim>\<open>moveMotor\<close> ramps: zero after a reversal\<close>
  "startSpeed s m dir =
     (if prevDirection s m \<noteq> dir \<and> prevDirection s m \<noteq> STOP then 0 else currentSpeed s m)"

definition duty :: "state \<Rightarrow> real \<Rightarrow> int" where
  \<comment> \<open>the duty cycle \<^verbatim>\<open>moveMotor\<close> derives from the ramped speed\<close>
  "duty s x = (if c_int x > 0 \<and> c_int x < MIN_SPEED s then MIN_SPEED s else c_int x)"

definition motorWrites :: "Wheel \<Rightarrow> Direction \<Rightarrow> bool \<Rightarrow> int \<Rightarrow> (Wheel \<times> Channel \<times> int) list" where
  \<comment> \<open>the \<^verbatim>\<open>analogWrite\<close> calls of one \<^verbatim>\<open>moveMotor\<close> call\<close>
  "motorWrites m dir dec v =
     (case dir of
        FORWARD \<Rightarrow> [(m, RPWM, v), (m, LPWM, 0)]
      | BACKWARD \<Rightarrow> [(m, RPWM, 0), (m, LPWM, v)]
      | STOP \<Rightarrow> if dec then [] else [(m, RPWM, 0), (m, LPWM, 0)])"

definition pwmWithin :: "int \<Rightarrow> (Wheel \<times> Channel \<times> int) list \<Rightarrow> bool" where
  \<comment> \<open>every duty cycle of the list lies in \<open>[0, B]\<close>\<close>
  "pwmWithin B xs = list_all (\<lambda>e. 0 \<le> snd (snd e) \<and> snd (snd e) \<le> B) xs"

definition wheelsWithin :: "int \<Rightarrow> state \<Rightarrow> bool" where
  \<comment> \<open>the ramped speed of each wheel lies in \<open>[0, B]\<close>\<close>
  "wheelsWithin B s =
     list_all (\<lambda>m. 0 \<le> currentSpeed s m \<and> currentSpeed s m \<le> real_of_int B) [LEFT, RIGHT, BACK]"

definition limitsOk :: "int \<Rightarrow> state \<Rightarrow> bool" where
  \<comment> \<open>the speed limits are ordered and \<open>B\<close> bounds \<open>MAX_SPEED\<close>\<close>
  "limitsOk B s = (0 \<le> MIN_SPEED s \<and> MIN_SPEED s \<le> MAX_SPEED s \<and> MAX_SPEED s \<le> B)"

definition rotationLimited :: "int \<Rightarrow> state \<Rightarrow> bool" where
  \<comment> \<open>the direction codes whose functions clamp the speed to \<^verbatim>\<open>MAX_ROTATION_SPEED\<close>: arc
      turns, rotations, and the slides of two-wheel mode, which rotate instead\<close>
  "rotationLimited direction s =
     (direction = 3 \<or> direction = 4 \<or> direction = 5 \<or> direction = 6
      \<or> ((direction = 7 \<or> direction = 8) \<and> \<not> useThreeWheels s))"

definition okStep :: "int \<Rightarrow> state \<Rightarrow> state \<Rightarrow> bool" where
  \<comment> \<open>from \<open>s\<close> to \<open>s'\<close> the configuration and the flags stay, the duty cycles written lie
      in \<open>[0, B]\<close>, and the wheels end within \<open>[0, B]\<close>\<close>
  "okStep B s s' =
     (MAX_SPEED s' = MAX_SPEED s \<and> MIN_SPEED s' = MIN_SPEED s
      \<and> useThreeWheels s' = useThreeWheels s \<and> decelerationActive s' = decelerationActive s
      \<and> leftEmergencyStop s' = leftEmergencyStop s \<and> rightEmergencyStop s' = rightEmergencyStop s
      \<and> wheelsWithin B s'
      \<and> length (pwm s) \<le> length (pwm s') \<and> take (length (pwm s)) (pwm s') = pwm s
      \<and> pwmWithin B (newPwm s s'))"

definition cmdsWithin :: "int \<Rightarrow> int \<Rightarrow> (Wheel \<times> Direction \<times> real) list \<Rightarrow> bool" where
  \<comment> \<open>every command of the list either stops its wheel with target 0 or drives it with a
      target in \<open>[lo, hi]\<close>\<close>
  "cmdsWithin lo hi xs =
     list_all (\<lambda>e. if fst (snd e) = STOP then snd (snd e) = 0
                    else real_of_int lo \<le> snd (snd e) \<and> snd (snd e) \<le> real_of_int hi) xs"

definition cmdsBelow :: "int \<Rightarrow> (Wheel \<times> Direction \<times> real) list \<Rightarrow> bool" where
  \<comment> \<open>every target of the list is below \<open>M\<close>\<close>
  "cmdsBelow M xs = list_all (\<lambda>e. snd (snd e) < real_of_int M) xs"

definition rotationRequests :: "ext \<Rightarrow> 32 word \<Rightarrow> int \<Rightarrow> state \<Rightarrow> state list" where
  \<comment> \<open>the states after the rotate-in-place requests at speed \<open>v\<close>: the two rotation
      functions, direction codes 5 and 6, and the keys \<^verbatim>\<open>Q\<close> and \<^verbatim>\<open>E\<close> (which request
      \<^verbatim>\<open>MAX_SPEED\<close>)\<close>
  "rotationRequests X now v s =
     [rotateLeft v s, rotateRight v s, executeMovement X 5 v s, executeMovement X 6 v s,
      dispatch X now ''Q'' [] s, dispatch X now ''E'' [] s]"

definition escapePayload :: "string \<Rightarrow> string" where
  \<comment> \<open>the sender's encoding as the specification describes it: each start marker, end
      marker and escape character of the payload is preceded by the escape character\<close>
  "escapePayload p =
     concat (map (\<lambda>c. if c = START_MARKER \<or> c = END_MARKER \<or> c = ESCAPE_CHAR
                        then [ESCAPE_CHAR, c] else [c]) p)"

definition frame :: "string \<Rightarrow> string" where
  \<comment> \<open>the escaped payload between the start and the end marker\<close>
  "frame p = START_MARKER # escapePayload p @ [END_MARKER]"

definition dbg :: "bool \<Rightarrow> string \<Rightarrow> sout list" where
  \<comment> \<open>the serial output of \<^verbatim>\<open>debugPrint\<close> on the message \<open>m\<close> when \<open>c\<close> holds, else none\<close>
  "dbg c m = (if c then [Print (Str ''<DEBUG:''), Print (Str m), Println (Str ''>'')] else [])"

section \<open>Verified properties\<close>

subsection \<open>Interlock flags and sensor groups\<close>

lemma setFlag_front:
  "setFlag d frontEmergencyStop (\<lambda>b t. t\<lparr>frontEmergencyStop := b\<rparr>) a b s
     = s\<lparr>frontEmergencyStop := d,
         serial := serial s @ dbg (d \<noteq> frontEmergencyStop s \<and> DEBUG_MODE s) (if d then a else b)\<rparr>"
  by (simp add: setFlag_def debugPrintV_def dbg_def)

lemma setFlag_back:
  "setFlag d backEmergencyStop (\<lambda>b t. t\<lparr>backEmergencyStop := b\<rparr>) a b s
     = s\<lparr>backEmergencyStop := d,
         serial := serial s @ dbg (d \<noteq> backEmergencyStop s \<and> DEBUG_MODE s) (if d then a else b)\<rparr>"
  by (simp add: setFlag_def debugPrintV_def dbg_def)

lemma setFlag_left:
  "setFlag d leftEmergencyStop (\<lambda>b t. t\<lparr>leftEmergencyStop := b\<rparr>) a b s
     = s\<lparr>leftEmergencyStop := d,
         serial := serial s @ dbg (d \<noteq> leftEmergencyStop s \<and> DEBUG_MODE s) (if d then a else b)\<rparr>"
  by (simp add: setFlag_def debugPrintV_def dbg_def)

lemma setFlag_right:
  "setFlag d rightEmergencyStop (\<lambda>b t. t\<lparr>rightEmergencyStop := b\<rparr>) a b s
     = s\<lparr>rightEmergencyStop := d,
         serial := serial s @ dbg (d \<noteq> rightEmergencyStop s \<and> DEBUG_MODE s) (if d then a else b)\<rparr>"
  by (simp add: setFlag_def debugPrintV_def dbg_def)

lemmas setFlag_eqs = setFlag_front setFlag_back setFlag_left setFlag_right

lemma updateInterlocks_flags:
  "frontEmergencyStop (updateInterlocks s)
      = (distF s < CRITICAL_DISTANCE \<or> distFL s < CRITICAL_DISTANCE \<or> distFR s < CRITICAL_DISTANCE)"
  "backEmergencyStop (updateInterlocks s)
      = (distB s < CRITICAL_DISTANCE \<or> distBL s < CRITICAL_DISTANCE \<or> distBR s < CRITICAL_DISTANCE)"
  "leftEmergencyStop (updateInterlocks s)
      = (distFL s < CRITICAL_DISTANCE \<or> distBL s < CRITICAL_DISTANCE)"
  "rightEmergencyStop (updateInterlocks s)
      = (distFR s < CRITICAL_DISTANCE \<or> distBR s < CRITICAL_DISTANCE)"
  by (simp_all add: updateInterlocks_def Let_def setFlag_eqs)

lemma updateInterlocks_dist:
  "distFL (updateInterlocks s) = distFL s" "distF (updateInterlocks s) = distF s"
  "distFR (updateInterlocks s) = distFR s" "distBL (updateInterlocks s) = distBL s"
  "distB (updateInterlocks s) = distB s" "distBR (updateInterlocks s) = distBR s"
  by (simp_all add: updateInterlocks_def Let_def setFlag_eqs)

text \<open>
  Claim C2. The interlock update of the control loop sets each directional flag to the
  truth value of "the minimum of the direction's sensor group, in the distance snapshot the
  update starts from, is below \<open>CRITICAL_DISTANCE\<close>": front uses front, front-left and
  front-right; back uses back, back-left and back-right; left uses front-left and
  back-left; right uses front-right and back-right. The update leaves the six distances
  as they are. This holds for every distance snapshot and every previous value of the
  flags.
\<close>

theorem interlock_flags_match_group_minimum:
  "frontEmergencyStop (updateInterlocks s)
     = (min (min (distFL s) (distF s)) (distFR s) < CRITICAL_DISTANCE)
   \<and> backEmergencyStop (updateInterlocks s)
     = (min (min (distBL s) (distB s)) (distBR s) < CRITICAL_DISTANCE)
   \<and> leftEmergencyStop (updateInterlocks s) = (min (distFL s) (distBL s) < CRITICAL_DISTANCE)
   \<and> rightEmergencyStop (updateInterlocks s) = (min (distFR s) (distBR s) < CRITICAL_DISTANCE)
   \<and> distFL (updateInterlocks s) = distFL s \<and> distF (updateInterlocks s) = distF s
   \<and> distFR (updateInterlocks s) = distFR s \<and> distBL (updateInterlocks s) = distBL s
   \<and> distB (updateInterlocks s) = distB s \<and> distBR (updateInterlocks s) = distBR s"
  unfolding updateInterlocks_flags updateInterlocks_dist min_less_iff_disj
  by blast

text \<open>An obstacle 10 cm from the front-left sensor blocks front and left, and nothing else.\<close>

theorem interlock_flags_match_group_minimum_witness:
  "frontEmergencyStop (updateInterlocks (init_state\<lparr>distFL := 10\<rparr>))
   \<and> leftEmergencyStop (updateInterlocks (init_state\<lparr>distFL := 10\<rparr>))
   \<and> \<not> backEmergencyStop (updateInterlocks (init_state\<lparr>distFL := 10\<rparr>))
   \<and> \<not> rightEmergencyStop (updateInterlocks (init_state\<lparr>distFL := 10\<rparr>))"
  using interlock_flags_match_group_minimum [of "init_state\<lparr>distFL := 10\<rparr>"]
  by (simp add: init_state_def CRITICAL_DISTANCE_def)

subsection \<open>Dynamic speed: the three distance regimes\<close>

















subsection \<open>Interlocks and the requests that pass them\<close>

lemma quiet_refl: "quiet s s"
  by (simp add: quiet_def)

lemma quiet_trans:
  assumes "quiet s t" "quiet t u"
  shows "quiet s u"
proof -
  have e1: "t = s\<lparr>serial := serial t\<rparr>" and e2: "u = t\<lparr>serial := serial u\<rparr>"
    using assms by (simp_all add: quiet_def)
  have "t\<lparr>serial := serial u\<rparr> = (s\<lparr>serial := serial t\<rparr>)\<lparr>serial := serial u\<rparr>"
    by (rule arg_cong [where f = "\<lambda>x. x\<lparr>serial := serial u\<rparr>", OF e1])
  also have "\<dots> = s\<lparr>serial := serial u\<rparr>"
    by simp
  finally have "t\<lparr>serial := serial u\<rparr> = s\<lparr>serial := serial u\<rparr>" .
  with e2 show ?thesis
    by (simp add: quiet_def)
qed

lemma quiet_debugPrintV: "quiet s (debugPrintV m s)"
  by (simp add: quiet_def debugPrintV_def)

lemma quiet_fields:
  assumes "quiet s t"
  shows "frontEmergencyStop t = frontEmergencyStop s" "backEmergencyStop t = backEmergencyStop s"
    "leftEmergencyStop t = leftEmergencyStop s" "rightEmergencyStop t = rightEmergencyStop s"
    "pwm t = pwm s" "cmds t = cmds s" "currentSpeed t = currentSpeed s"
    "prevDirection t = prevDirection s" "MAX_SPEED t = MAX_SPEED s" "MIN_SPEED t = MIN_SPEED s"
    "useThreeWheels t = useThreeWheels s" "decelerationActive t = decelerationActive s"
    "masterOverrideActive t = masterOverrideActive s"
    "enableObstacleAvoidance t = enableObstacleAvoidance s" "avoidanceState t = avoidanceState s"
proof -
  have e: "t = s\<lparr>serial := serial t\<rparr>"
    using assms by (simp add: quiet_def)
  show "frontEmergencyStop t = frontEmergencyStop s" by (subst e) simp
  show "backEmergencyStop t = backEmergencyStop s" by (subst e) simp
  show "leftEmergencyStop t = leftEmergencyStop s" by (subst e) simp
  show "rightEmergencyStop t = rightEmergencyStop s" by (subst e) simp
  show "pwm t = pwm s" by (subst e) simp
  show "cmds t = cmds s" by (subst e) simp
  show "currentSpeed t = currentSpeed s" by (subst e) simp
  show "prevDirection t = prevDirection s" by (subst e) simp
  show "MAX_SPEED t = MAX_SPEED s" by (subst e) simp
  show "MIN_SPEED t = MIN_SPEED s" by (subst e) simp
  show "useThreeWheels t = useThreeWheels s" by (subst e) simp
  show "decelerationActive t = decelerationActive s" by (subst e) simp
  show "masterOverrideActive t = masterOverrideActive s" by (subst e) simp
  show "enableObstacleAvoidance t = enableObstacleAvoidance s" by (subst e) simp
  show "avoidanceState t = avoidanceState s" by (subst e) simp
qed

lemma quiet_moveBackward: "backEmergencyStop s \<Longrightarrow> quiet s (moveBackward v s)"
  by (simp add: moveBackward_def quiet_debugPrintV)

lemma quiet_turnLeft: "leftEmergencyStop s \<Longrightarrow> quiet s (turnLeft v s)"
  by (simp add: turnLeft_def quiet_debugPrintV)

lemma quiet_turnRight: "rightEmergencyStop s \<Longrightarrow> quiet s (turnRight v s)"
  by (simp add: turnRight_def quiet_debugPrintV)

lemma quiet_slideLeft: "leftEmergencyStop s \<Longrightarrow> quiet s (slideLeft v s)"
  by (simp add: slideLeft_def quiet_debugPrintV)

lemma quiet_slideRight: "rightEmergencyStop s \<Longrightarrow> quiet s (slideRight v s)"
  by (simp add: slideRight_def quiet_debugPrintV)

lemma quiet_diagFL: "frontEmergencyStop s \<or> leftEmergencyStop s \<Longrightarrow> quiet s (moveDiagonalForwardLeft v s)"
  by (simp add: moveDiagonalForwardLeft_def quiet_debugPrintV)

lemma quiet_diagFR: "frontEmergencyStop s \<or> rightEmergencyStop s \<Longrightarrow> quiet s (moveDiagonalForwardRight v s)"
  by (simp add: moveDiagonalForwardRight_def quiet_debugPrintV)

lemma quiet_diagBL: "backEmergencyStop s \<or> leftEmergencyStop s \<Longrightarrow> quiet s (moveDiagonalBackwardLeft v s)"
  by (simp add: moveDiagonalBackwardLeft_def quiet_debugPrintV)

lemma quiet_diagBR: "backEmergencyStop s \<or> rightEmergencyStop s \<Longrightarrow> quiet s (moveDiagonalBackwardRight v s)"
  by (simp add: moveDiagonalBackwardRight_def quiet_debugPrintV)

lemma quiet_reportAdjusted: "quiet s (reportAdjusted d v s)"
  by (simp add: reportAdjusted_def quiet_debugPrintV quiet_refl)

lemma quiet_reportBlocked: "quiet s (reportBlocked d s)"
  by (simp add: reportBlocked_def quiet_debugPrintV quiet_refl)

text \<open>
  The vetoes that \<^verbatim>\<open>executeMovement\<close> applies: under the master override, under its own
  guard for the codes 1 to 6, and under the guards of the slide and diagonal functions for
  the codes 7 to 12, the request changes nothing but the serial output.
\<close>

lemma executeMovement_vetoes:
  assumes "masterOverrideActive s \<or> movementBlocked direction s
    \<or> (direction = 7 \<and> leftEmergencyStop s) \<or> (direction = 8 \<and> rightEmergencyStop s)
    \<or> (direction = 9 \<and> (frontEmergencyStop s \<or> leftEmergencyStop s))
    \<or> (direction = 10 \<and> (frontEmergencyStop s \<or> rightEmergencyStop s))
    \<or> (direction = 11 \<and> (backEmergencyStop s \<or> leftEmergencyStop s))
    \<or> (direction = 12 \<and> (backEmergencyStop s \<or> rightEmergencyStop s))"
  shows "quiet s (executeMovement X direction v s)"
proof (cases "masterOverrideActive s \<or> movementBlocked direction s")
  case True
  then show ?thesis
    by (auto simp add: executeMovement_def quiet_debugPrintV quiet_reportBlocked)
next
  case False
  define s1 where "s1 = reportAdjusted v (safeSpeedFor direction v s) s"
  have q: "quiet s s1"
    unfolding s1_def by (rule quiet_reportAdjusted)
  note f = quiet_fields(1-4) [OF q]
  have e: "executeMovement X direction v s
             = performMovement X direction (safeSpeedFor direction v s) s1"
    using False by (simp add: executeMovement_def s1_def)
  from assms False consider
      "direction = 7" "leftEmergencyStop s1" | "direction = 8" "rightEmergencyStop s1"
    | "direction = 9" "frontEmergencyStop s1 \<or> leftEmergencyStop s1"
    | "direction = 10" "frontEmergencyStop s1 \<or> rightEmergencyStop s1"
    | "direction = 11" "backEmergencyStop s1 \<or> leftEmergencyStop s1"
    | "direction = 12" "backEmergencyStop s1 \<or> rightEmergencyStop s1"
    unfolding f by blast
  then have "quiet s1 (performMovement X direction (safeSpeedFor direction v s) s1)"
  proof cases
    case 1
    then show ?thesis by (simp add: performMovement_def quiet_slideLeft)
  next
    case 2
    then show ?thesis by (simp add: performMovement_def quiet_slideRight)
  next
    case 3
    then show ?thesis by (simp add: performMovement_def quiet_diagFL)
  next
    case 4
    then show ?thesis by (simp add: performMovement_def quiet_diagFR)
  next
    case 5
    then show ?thesis by (simp add: performMovement_def quiet_diagBL)
  next
    case 6
    then show ?thesis by (simp add: performMovement_def quiet_diagBR)
  qed
  with q show ?thesis
    unfolding e by (rule quiet_trans)
qed

text \<open>
  Claim C1 at two inputs. First, obstacles 5 cm from the front-left and the front-right
  sensor: the interlock update sets the left and the right flag. The movement request
  \<^verbatim>\<open>MOV:5,60\<close> (rotate left) is then vetoed by \<^verbatim>\<open>executeMovement\<close>: no motor command and no
  duty cycle. The request \<^verbatim>\<open>ROT:1,60\<close> for the same rotation is handled by \<^verbatim>\<open>parseCommand\<close>
  itself, which calls \<^verbatim>\<open>rotateLeft\<close> without a test of the flags: the left and the right
  wheel are commanded at 60 and written the duty cycle 50. Second, an obstacle 5 cm ahead:
  the front flag is set and \<^verbatim>\<open>MOV:1,60\<close> (forward) is vetoed, but \<^verbatim>\<open>MOV:3,60\<close> (arc left),
  whose guard reads the left flag only, drives the left wheel backward and the right wheel
  forward, the directions of \<^verbatim>\<open>moveForward\<close>.
\<close>

theorem ROT_bypasses_interlock:
  "leftEmergencyStop flanksBlocked \<and> rightEmergencyStop flanksBlocked
   \<and> map_sum id (\<lambda>s. (newCmds flanksBlocked s, newPwm flanksBlocked s))
         (parseCommand noExt 0 ''MOV:5,60'' flanksBlocked) = Inr ([], [])
   \<and> map_sum id (\<lambda>s. (newCmds flanksBlocked s, newPwm flanksBlocked s))
         (parseCommand noExt 0 ''ROT:1,60'' flanksBlocked)
       = Inr ([(LEFT, FORWARD, 60), (RIGHT, FORWARD, 60), (BACK, STOP, 0)],
              [(LEFT, RPWM, 50), (LEFT, LPWM, 0), (RIGHT, RPWM, 50), (RIGHT, LPWM, 0),
               (BACK, RPWM, 0), (BACK, LPWM, 0)])
   \<and> frontEmergencyStop frontBlocked \<and> \<not> leftEmergencyStop frontBlocked
   \<and> map_sum id (newCmds frontBlocked) (parseCommand noExt 0 ''MOV:1,60'' frontBlocked) = Inr []
   \<and> map_sum id (newCmds frontBlocked) (parseCommand noExt 0 ''MOV:3,60'' frontBlocked)
       = Inr [(LEFT, BACKWARD, 50), (RIGHT, FORWARD, 90), (BACK, STOP, 0)]"
  by code_simp

subsection \<open>The three-wheel holonomic mapper\<close>

lemma c_abs_abs: "c_abs x = \<bar>x\<bar>"
  by (simp add: c_abs_def)

lemma normalizeWheelSpeeds_scale:
  fixes l r b :: real
  defines "M \<equiv> max \<bar>l\<bar> (max \<bar>r\<bar> \<bar>b\<bar>)"
  defines "k \<equiv> (if M > 1 then 1 / M else 1)"
  shows "normalizeWheelSpeeds (l, r, b) = (k * l, k * r, k * b)"
    and "0 < k"
    and "\<bar>k * l\<bar> \<le> 1" "\<bar>k * r\<bar> \<le> 1" "\<bar>k * b\<bar> \<le> 1"
proof -
  show "normalizeWheelSpeeds (l, r, b) = (k * l, k * r, k * b)"
    by (simp add: normalizeWheelSpeeds_def c_abs_abs Let_def M_def k_def)
  show k: "0 < k"
    by (simp add: k_def)
  have lM: "\<bar>l\<bar> \<le> M" and rM: "\<bar>r\<bar> \<le> M" and bM: "\<bar>b\<bar> \<le> M"
    by (simp_all add: M_def)
  have bound: "\<bar>k * x\<bar> \<le> 1" if x: "\<bar>x\<bar> \<le> M" for x
  proof (cases "M > 1")
    case True
    then have "\<bar>k * x\<bar> = \<bar>x\<bar> / M"
      by (simp add: k_def abs_mult)
    also have "\<dots> \<le> 1"
      using True x by (simp add: field_simps)
    finally show ?thesis .
  next
    case False
    then show ?thesis
      using x by (simp add: k_def)
  qed
  show "\<bar>k * l\<bar> \<le> 1" "\<bar>k * r\<bar> \<le> 1" "\<bar>k * b\<bar> \<le> 1"
    using lM rM bM by (simp_all add: bound)
qed

lemma wheelSpeeds_in_range:
  assumes "\<bar>vx\<bar> \<le> 1" "\<bar>vy\<bar> \<le> 1" "\<bar>omega\<bar> \<le> 1"
  shows "wheelSpeeds vy vx omega =
     (case normalizeWheelSpeeds (rawWheelSpeeds vy vx omega) of
        (l, r, b) \<Rightarrow> (deadband l, deadband r, deadband b))"
proof -
  have "constrain vx (- 1) 1 = vx" "constrain vy (- 1) 1 = vy" "constrain omega (- 1) 1 = omega"
    using assms by (auto simp add: constrain_def)
  then show ?thesis
    by (simp add: wheelSpeeds_def)
qed

lemma deadband_eq: "deadband x = (if \<bar>x\<bar> < 0.1 then 0 else x)"
  by (simp add: deadband_def DEADBAND_def c_abs_abs)

lemma holonomic_mapper_aux:
  assumes "\<bar>vx\<bar> \<le> 1" "\<bar>vy\<bar> \<le> 1" "\<bar>omega\<bar> \<le> 1"
  defines "l \<equiv> - 0.5 * vx - 0.866 * vy + omega"
    and "r \<equiv> - 0.5 * vx + 0.866 * vy + omega"
    and "b \<equiv> vx + omega"
  defines "M \<equiv> max \<bar>l\<bar> (max \<bar>r\<bar> \<bar>b\<bar>)"
  defines "k \<equiv> (if M > 1 then 1 / M else 1)"
  shows "rawWheelSpeeds vy vx omega = (l, r, b)
    \<and> normalizeWheelSpeeds (l, r, b) = (k * l, k * r, k * b)
    \<and> 0 < k \<and> \<bar>k * l\<bar> \<le> 1 \<and> \<bar>k * r\<bar> \<le> 1 \<and> \<bar>k * b\<bar> \<le> 1
    \<and> wheelSpeeds vy vx omega = (deadband (k * l), deadband (k * r), deadband (k * b))
    \<and> deadband x = (if \<bar>x\<bar> < 0.1 then 0 else x)"
proof -
  have raw: "rawWheelSpeeds vy vx omega = (l, r, b)"
    by (simp add: rawWheelSpeeds_def l_def r_def b_def)
  note n = normalizeWheelSpeeds_scale [of l r b, folded M_def, folded k_def]
  have "wheelSpeeds vy vx omega =
     (case normalizeWheelSpeeds (rawWheelSpeeds vy vx omega) of
        (l, r, b) \<Rightarrow> (deadband l, deadband r, deadband b))"
    using assms(1-3) by (rule wheelSpeeds_in_range)
  also have "\<dots> = (deadband (k * l), deadband (k * r), deadband (k * b))"
    unfolding raw n(1) by simp
  finally have w: "wheelSpeeds vy vx omega = (deadband (k * l), deadband (k * r), deadband (k * b))" .
  from raw n w deadband_eq show ?thesis
    by (intro conjI)
qed

text \<open>
  Claim C3. For inputs \<open>vx\<close>, \<open>vy\<close>, \<open>omega\<close> in \<open>[-1, 1]\<close> the mapper computes
  \<open>left = -0.5 vx - 0.866 vy + omega\<close>, \<open>right = -0.5 vx + 0.866 vy + omega\<close> and
  \<open>back = vx + omega\<close>. With \<open>M\<close> the largest of the three magnitudes, the three values
  are divided by \<open>M\<close> when \<open>M > 1\<close> and left as they are otherwise: they are multiplied
  by one positive factor \<open>k\<close>, which keeps their ratios, and afterwards each magnitude is
  at most 1. Then every value of magnitude below 0.1 is replaced by 0.
\<close>

theorem holonomic_mapper:
  assumes "\<bar>vx\<bar> \<le> 1" "\<bar>vy\<bar> \<le> 1" "\<bar>omega\<bar> \<le> 1"
  shows "let l = - 0.5 * vx - 0.866 * vy + omega;
             r = - 0.5 * vx + 0.866 * vy + omega;
             b = vx + omega;
             M = max \<bar>l\<bar> (max \<bar>r\<bar> \<bar>b\<bar>);
             k = (if M > 1 then 1 / M else 1)
         in rawWheelSpeeds vy vx omega = (l, r, b)
            \<and> normalizeWheelSpeeds (l, r, b) = (k * l, k * r, k * b)
            \<and> 0 < k \<and> \<bar>k * l\<bar> \<le> 1 \<and> \<bar>k * r\<bar> \<le> 1 \<and> \<bar>k * b\<bar> \<le> 1
            \<and> wheelSpeeds vy vx omega = (deadband (k * l), deadband (k * r), deadband (k * b))
            \<and> deadband x = (if \<bar>x\<bar> < 0.1 then 0 else x)"
  unfolding Let_def by (rule holonomic_mapper_aux [OF assms])

text \<open>Full speed on all three axes: the back wheel saturates and the others scale by 1/2.\<close>

theorem holonomic_mapper_witness:
  "rawWheelSpeeds 1 1 1 = (- (366 / 1000), 1366 / 1000, 2)
   \<and> normalizeWheelSpeeds (- (366 / 1000), 1366 / 1000, 2) = (- (183 / 1000), 683 / 1000, 1)
   \<and> wheelSpeeds 1 1 1 = (- (183 / 1000), 683 / 1000, 1)"
proof -
  have h: "\<bar>1 :: real\<bar> \<le> 1"
    by simp
  have l: "- 0.5 * 1 - 0.866 * 1 + 1 = (- (366 / 1000) :: real)"
    and r: "- 0.5 * 1 + 0.866 * 1 + 1 = (1366 / 1000 :: real)"
    and b: "1 + 1 = (2 :: real)"
    by simp_all
  have m: "max \<bar>- (366 / 1000)\<bar> (max \<bar>1366 / 1000\<bar> \<bar>2 :: real\<bar>) = 2"
    by simp
  have k: "(if (2 :: real) > 1 then 1 / 2 else 1) = (1 / 2 :: real)"
    by simp
  have d: "deadband (1 / 2 * - (366 / 1000)) = - (183 / 1000)"
    "deadband (1 / 2 * (1366 / 1000)) = 683 / 1000" "deadband (1 / 2 * 2) = 1"
    by (simp_all add: deadband_eq)
  have p: "1 / 2 * - (366 / 1000) = (- (183 / 1000) :: real)"
    "1 / 2 * (1366 / 1000) = (683 / 1000 :: real)" "1 / 2 * 2 = (1 :: real)"
    by simp_all
  from holonomic_mapper [OF h h h, of 0, unfolded Let_def l r b m k d]
  show ?thesis
    unfolding p by blast
qed

subsection \<open>Duty cycles stay within the speed limit\<close>

lemma moveMotor_eq:
  "moveMotor m dir t s =
     s\<lparr>currentSpeed := (currentSpeed s)
          (m := if dir = STOP \<and> \<not> decelerationActive s then 0
                else accelLimit (MAX_SPEED s) (startSpeed s m dir) t),
       prevDirection := (prevDirection s)(m := dir),
       pwm := pwm s @ motorWrites m dir (decelerationActive s)
                        (duty s (accelLimit (MAX_SPEED s) (startSpeed s m dir) t)),
       cmds := cmds s @ [(m, dir, t)]\<rparr>"
  by (cases dir)
     (simp_all add: moveMotor_def Let_def logCmd_def setCurrentSpeed_def setPrevDirection_def
        analogWrite_def startSpeed_def duty_def motorWrites_def)

lemma wheelsWithin_iff:
  "wheelsWithin B s \<longleftrightarrow> (\<forall>m. 0 \<le> currentSpeed s m \<and> currentSpeed s m \<le> real_of_int B)"
proof
  assume w: "wheelsWithin B s"
  show "\<forall>m. 0 \<le> currentSpeed s m \<and> currentSpeed s m \<le> real_of_int B"
  proof
    fix m
    from w show "0 \<le> currentSpeed s m \<and> currentSpeed s m \<le> real_of_int B"
      by (cases m) (simp_all add: wheelsWithin_def)
  qed
next
  assume "\<forall>m. 0 \<le> currentSpeed s m \<and> currentSpeed s m \<le> real_of_int B"
  then show "wheelsWithin B s"
    by (simp add: wheelsWithin_def)
qed

lemma accelLimit_between:
  assumes "0 \<le> M" "lo \<le> cur" "cur \<le> hi" "lo \<le> t" "t \<le> hi"
  shows "lo \<le> accelLimit M cur t" "accelLimit M cur t \<le> hi"
proof -
  have step: "0 \<le> real_of_int M * ACCEL_RATE"
    using assms(1) by (simp add: ACCEL_RATE_def)
  show "lo \<le> accelLimit M cur t"
    using assms(2,4) step by (auto simp add: accelLimit_def min_def max_def)
  show "accelLimit M cur t \<le> hi"
    using assms(3,5) step by (auto simp add: accelLimit_def min_def max_def)
qed

lemma c_int_bounds:
  assumes "0 \<le> x" "x \<le> real_of_int B"
  shows "0 \<le> c_int x" "c_int x \<le> B"
  using assms by (simp_all add: c_int_def floor_le_iff)

lemma duty_bounds:
  assumes "0 \<le> x" "x \<le> real_of_int B" "MIN_SPEED s \<le> B"
  shows "0 \<le> duty s x" "duty s x \<le> B"
  using c_int_bounds [OF assms(1,2)] assms(3)
  by (auto simp add: duty_def)

lemma pwmWithin_motorWrites:
  assumes "0 \<le> v" "v \<le> B"
  shows "pwmWithin B (motorWrites m dir dec v)"
  using assms by (cases dir) (simp_all add: pwmWithin_def motorWrites_def)

lemma pwmWithin_append: "pwmWithin B (xs @ ys) \<longleftrightarrow> pwmWithin B xs \<and> pwmWithin B ys"
  by (simp add: pwmWithin_def)

lemma okStep_refl: "wheelsWithin B s \<Longrightarrow> okStep B s s"
  by (simp add: okStep_def newPwm_def pwmWithin_def)

lemma okStep_trans:
  assumes "okStep B s t" "okStep B t u"
  shows "okStep B s u"
proof -
  obtain n1 where n1: "pwm t = pwm s @ n1" "pwmWithin B n1"
    using assms(1) unfolding okStep_def newPwm_def
    by (metis append_take_drop_id)
  obtain n2 where n2: "pwm u = pwm t @ n2" "pwmWithin B n2"
    using assms(2) unfolding okStep_def newPwm_def
    by (metis append_take_drop_id)
  have "pwm u = pwm s @ (n1 @ n2)"
    using n1 n2 by simp
  then have "length (pwm s) \<le> length (pwm u)" "take (length (pwm s)) (pwm u) = pwm s"
    "newPwm s u = n1 @ n2"
    by (simp_all add: newPwm_def)
  moreover have "pwmWithin B (n1 @ n2)"
    using n1 n2 by (simp add: pwmWithin_append)
  ultimately show ?thesis
    using assms by (simp add: okStep_def)
qed

lemma okStep_extend:
  assumes "MAX_SPEED t = MAX_SPEED s" "MIN_SPEED t = MIN_SPEED s"
    "useThreeWheels t = useThreeWheels s" "decelerationActive t = decelerationActive s"
    "leftEmergencyStop t = leftEmergencyStop s" "rightEmergencyStop t = rightEmergencyStop s"
    "wheelsWithin B t" "pwm t = pwm s @ new" "pwmWithin B new"
  shows "okStep B s t"
  using assms by (simp add: okStep_def newPwm_def)

lemma okStep_quiet:
  assumes "quiet s t" "wheelsWithin B s"
  shows "okStep B s t"
proof (rule okStep_extend [where new = "[]"])
  show "wheelsWithin B t"
    using assms by (simp add: wheelsWithin_def quiet_fields)
qed (simp_all add: quiet_fields [OF assms(1)] pwmWithin_def)

lemma okStep_limits: "okStep B s t \<Longrightarrow> limitsOk B s \<Longrightarrow> limitsOk B t"
  by (simp add: okStep_def limitsOk_def)

lemma okStep_wheels: "okStep B s t \<Longrightarrow> wheelsWithin B t"
  by (simp add: okStep_def)

lemma okStep_setCurrentSpeed:
  assumes "wheelsWithin B s" "0 \<le> B"
  shows "okStep B s (setCurrentSpeed m 0 s)"
proof (rule okStep_extend [where new = "[]"])
  show "wheelsWithin B (setCurrentSpeed m 0 s)"
    using assms by (simp add: wheelsWithin_iff setCurrentSpeed_def)
qed (simp_all add: setCurrentSpeed_def pwmWithin_def)

lemma okStep_moveMotor:
  assumes l: "limitsOk B s" and w: "wheelsWithin B s" and t: "0 \<le> t" "t \<le> real_of_int B"
  shows "okStep B s (moveMotor m dir t s)"
proof -
  define x where "x = accelLimit (MAX_SPEED s) (startSpeed s m dir) t"
  have M: "0 \<le> MAX_SPEED s" and mb: "MIN_SPEED s \<le> B" and B: "0 \<le> B"
    using l by (simp_all add: limitsOk_def)
  have st: "0 \<le> startSpeed s m dir" "startSpeed s m dir \<le> real_of_int B"
    using w B by (simp_all add: startSpeed_def wheelsWithin_iff)
  have x: "0 \<le> x" "x \<le> real_of_int B"
    unfolding x_def using M st t by (rule accelLimit_between)+
  have d: "pwmWithin B (motorWrites m dir (decelerationActive s) (duty s x))"
    using duty_bounds [OF x mb] by (rule pwmWithin_motorWrites)
  show ?thesis
  proof (rule okStep_extend [where new = "motorWrites m dir (decelerationActive s) (duty s x)"])
    show "wheelsWithin B (moveMotor m dir t s)"
      using w x B by (simp add: wheelsWithin_iff moveMotor_eq x_def)
    show "pwmWithin B (motorWrites m dir (decelerationActive s) (duty s x))"
      by (rule d)
  qed (simp_all add: moveMotor_eq x_def)
qed

lemma okStep_three:
  assumes l: "limitsOk B s" and w: "wheelsWithin B s"
    and t: "0 \<le> vl" "vl \<le> real_of_int B" "0 \<le> vr" "vr \<le> real_of_int B"
      "0 \<le> vb" "vb \<le> real_of_int B"
  shows "okStep B s (moveMotor BACK db vb (moveMotor RIGHT dr vr (moveMotor LEFT dl vl s)))"
proof -
  have 1: "okStep B s (moveMotor LEFT dl vl s)"
    using l w t(1,2) by (rule okStep_moveMotor)
  have 2: "okStep B (moveMotor LEFT dl vl s) (moveMotor RIGHT dr vr (moveMotor LEFT dl vl s))"
    using okStep_limits [OF 1 l] okStep_wheels [OF 1] t(3,4) by (rule okStep_moveMotor)
  note 12 = okStep_trans [OF 1 2]
  have 3: "okStep B (moveMotor RIGHT dr vr (moveMotor LEFT dl vl s))
     (moveMotor BACK db vb (moveMotor RIGHT dr vr (moveMotor LEFT dl vl s)))"
    using okStep_limits [OF 12 l] okStep_wheels [OF 12] t(5,6) by (rule okStep_moveMotor)
  show ?thesis
    by (rule okStep_trans [OF 12 3])
qed


lemma moveMotor_frame [simp]:
  "MAX_SPEED (moveMotor m dir t s) = MAX_SPEED s"
  "MIN_SPEED (moveMotor m dir t s) = MIN_SPEED s"
  "useThreeWheels (moveMotor m dir t s) = useThreeWheels s"
  "decelerationActive (moveMotor m dir t s) = decelerationActive s"
  "leftEmergencyStop (moveMotor m dir t s) = leftEmergencyStop s"
  "rightEmergencyStop (moveMotor m dir t s) = rightEmergencyStop s"
  "cmds (moveMotor m dir t s) = cmds s @ [(m, dir, t)]"
  by (simp_all add: moveMotor_eq)

lemma debugPrintV_frame [simp]:
  "MAX_SPEED (debugPrintV x s) = MAX_SPEED s"
  "MIN_SPEED (debugPrintV x s) = MIN_SPEED s"
  "useThreeWheels (debugPrintV x s) = useThreeWheels s"
  "decelerationActive (debugPrintV x s) = decelerationActive s"
  "leftEmergencyStop (debugPrintV x s) = leftEmergencyStop s"
  "rightEmergencyStop (debugPrintV x s) = rightEmergencyStop s"
  "frontEmergencyStop (debugPrintV x s) = frontEmergencyStop s"
  "backEmergencyStop (debugPrintV x s) = backEmergencyStop s"
  "cmds (debugPrintV x s) = cmds s"
  "pwm (debugPrintV x s) = pwm s"
  "currentSpeed (debugPrintV x s) = currentSpeed s"
  by (simp_all add: debugPrintV_def)

lemma setCurrentSpeed_frame [simp]:
  "MAX_SPEED (setCurrentSpeed m x s) = MAX_SPEED s"
  "MIN_SPEED (setCurrentSpeed m x s) = MIN_SPEED s"
  "useThreeWheels (setCurrentSpeed m x s) = useThreeWheels s"
  "decelerationActive (setCurrentSpeed m x s) = decelerationActive s"
  "leftEmergencyStop (setCurrentSpeed m x s) = leftEmergencyStop s"
  "rightEmergencyStop (setCurrentSpeed m x s) = rightEmergencyStop s"
  "cmds (setCurrentSpeed m x s) = cmds s"
  "pwm (setCurrentSpeed m x s) = pwm s"
  by (simp_all add: setCurrentSpeed_def)

lemma constrain_between:
  fixes lo :: "'a::linorder"
  assumes "lo \<le> hi"
  shows "lo \<le> constrain x lo hi" "constrain x lo hi \<le> hi"
  using assms by (auto simp add: constrain_def)

lemma constrain_minmax:
  fixes lo :: "'a::linorder"
  shows "min lo hi \<le> constrain x lo hi" "constrain x lo hi \<le> max lo hi"
  by (auto simp add: constrain_def min_def max_def)

lemma okStep_maneuver:
  assumes l: "limitsOk B s" and w: "wheelsWithin B s" and q: "quiet s s1"
    and t: "0 \<le> vl" "vl \<le> real_of_int B" "0 \<le> vr" "vr \<le> real_of_int B"
      "0 \<le> vb" "vb \<le> real_of_int B"
  shows "okStep B s (moveMotor BACK db vb (moveMotor RIGHT dr vr (moveMotor LEFT dl vl s1)))"
proof -
  have 1: "okStep B s s1"
    using q w by (rule okStep_quiet)
  have "okStep B s1 (moveMotor BACK db vb (moveMotor RIGHT dr vr (moveMotor LEFT dl vl s1)))"
    using okStep_limits [OF 1 l] okStep_wheels [OF 1] t by (rule okStep_three)
  with 1 show ?thesis
    by (rule okStep_trans)
qed

lemma speed_bounds:
  assumes "limitsOk B s"
  shows "0 \<le> constrain v (MIN_SPEED s) (MAX_SPEED s)"
    "constrain v (MIN_SPEED s) (MAX_SPEED s) \<le> B"
  using assms by (auto simp add: limitsOk_def constrain_def)

lemma rotation_bounds:
  assumes "limitsOk B s" "MAX_ROTATION_SPEED \<le> B"
  shows "0 \<le> constrain v (MIN_SPEED s) MAX_ROTATION_SPEED"
    "constrain v (MIN_SPEED s) MAX_ROTATION_SPEED \<le> B"
  using assms by (auto simp add: limitsOk_def constrain_def MAX_ROTATION_SPEED_def)

lemma scaled_bounds:
  assumes "0 \<le> sp" "sp \<le> B" "0 \<le> c" "c \<le> 1"
  shows "0 \<le> real_of_int sp * c" "real_of_int sp * c \<le> real_of_int B"
proof -
  show "0 \<le> real_of_int sp * c"
    using assms(1,3) by simp
  have "real_of_int sp * c \<le> real_of_int sp * 1"
    using assms(1,4) by (intro mult_left_mono) simp_all
  also have "\<dots> \<le> real_of_int B"
    using assms(2) by simp
  finally show "real_of_int sp * c \<le> real_of_int B" .
qed

lemma real_bounds:
  assumes "0 \<le> sp" "sp \<le> B"
  shows "0 \<le> real_of_int sp" "real_of_int sp \<le> real_of_int B"
  using assms by simp_all

lemma okStep_moveBackward:
  assumes l: "limitsOk B s" and w: "wheelsWithin B s"
  shows "okStep B s (moveBackward v s)"
proof (cases "backEmergencyStop s")
  case True
  then show ?thesis
    using w by (simp add: okStep_quiet quiet_moveBackward)
next
  case False
  note b = speed_bounds [OF l, of v]
  note r = real_bounds [OF b]
  have B: "0 \<le> B"
    using l by (simp add: limitsOk_def)
  from False show ?thesis
    by (simp add: moveBackward_def Let_def okStep_maneuver [OF l w quiet_debugPrintV] b B)
qed

lemma okStep_moveForward:
  assumes l: "limitsOk B s" and w: "wheelsWithin B s"
    and a: "avoidanceState s = IDLE \<or> \<not> enableObstacleAvoidance s"
    and f: "\<not> frontEmergencyStop s"
  shows "okStep B s (moveForward X v s)"
proof -
  note b = speed_bounds [OF l, of v]
  note r = real_bounds [OF b]
  have B: "0 \<le> B"
    using l by (simp add: limitsOk_def)
  from a f show ?thesis
    by (auto simp add: moveForward_def Let_def okStep_maneuver [OF l w quiet_debugPrintV] b B)
qed

lemma okStep_diagonals:
  assumes l: "limitsOk B s" and w: "wheelsWithin B s"
  shows "okStep B s (moveDiagonalForwardLeft v s)" "okStep B s (moveDiagonalForwardRight v s)"
    "okStep B s (moveDiagonalBackwardLeft v s)" "okStep B s (moveDiagonalBackwardRight v s)"
proof -
  note b = speed_bounds [OF l, of v]
  note r = real_bounds [OF b]
  note m = okStep_maneuver [OF l w quiet_debugPrintV]
  note q = okStep_quiet [OF quiet_debugPrintV w]
  have B: "0 \<le> real_of_int B"
    using l by (simp add: limitsOk_def)
  show "okStep B s (moveDiagonalForwardLeft v s)"
    apply (simp add: moveDiagonalForwardLeft_def Let_def q)
    apply (intro conjI impI m)
    using r B apply linarith+
    done
  show "okStep B s (moveDiagonalForwardRight v s)"
    apply (simp add: moveDiagonalForwardRight_def Let_def q)
    apply (intro conjI impI m)
    using r B apply linarith+
    done
  show "okStep B s (moveDiagonalBackwardLeft v s)"
    apply (simp add: moveDiagonalBackwardLeft_def Let_def q)
    apply (intro conjI impI m)
    using r B apply linarith+
    done
  show "okStep B s (moveDiagonalBackwardRight v s)"
    apply (simp add: moveDiagonalBackwardRight_def Let_def q)
    apply (intro conjI impI m)
    using r B apply linarith+
    done
qed

lemma okStep_turns:
  assumes l: "limitsOk B s" and w: "wheelsWithin B s" and rl: "MAX_ROTATION_SPEED \<le> B"
  shows "okStep B s (turnLeft v s)" "okStep B s (turnRight v s)"
proof -
  define sp where "sp = constrain v (MIN_SPEED s) MAX_ROTATION_SPEED"
  note b = rotation_bounds [OF l rl, of v, folded sp_def]
  note r = real_bounds [OF b]
  have m: "0 \<le> real_of_int (MIN_SPEED s)" "real_of_int (MIN_SPEED s) \<le> real_of_int B"
    "0 \<le> real_of_int (MAX_SPEED s)" "real_of_int (MAX_SPEED s) \<le> real_of_int B"
    "0 \<le> real_of_int B"
    using l by (simp_all add: limitsOk_def)
  have inner: "0 \<le> max (real_of_int (MIN_SPEED s)) (real_of_int sp / 2)"
    "max (real_of_int (MIN_SPEED s)) (real_of_int sp / 2) \<le> real_of_int B"
    using r m by (auto simp add: max_def)
  have outer: "0 \<le> min (real_of_int (MAX_SPEED s)) (real_of_int sp * 3 / 2)"
    "min (real_of_int (MAX_SPEED s)) (real_of_int sp * 3 / 2) \<le> real_of_int B"
    using r m by (auto simp add: min_def)
  note ci = real_bounds [OF c_int_bounds [OF inner]]
  note co = real_bounds [OF c_int_bounds [OF outer]]
  have q2: "quiet s (debugPrintV y (debugPrintV x s))" for x y
    by (rule quiet_trans [OF quiet_debugPrintV quiet_debugPrintV])
  note k = okStep_maneuver [OF l w q2]
  note q = okStep_quiet [OF quiet_debugPrintV w]
  show "okStep B s (turnLeft v s)"
    apply (simp add: turnLeft_def Let_def sp_def [symmetric] q)
    apply (intro conjI impI k)
    using r m ci co apply linarith+
    done
  show "okStep B s (turnRight v s)"
    apply (simp add: turnRight_def Let_def sp_def [symmetric] q)
    apply (intro conjI impI k)
    using r m ci co apply linarith+
    done
qed

lemma okStep_rotate:
  assumes l: "limitsOk B s" and w: "wheelsWithin B s" and rl: "MAX_ROTATION_SPEED \<le> B"
  shows "okStep B s (rotateLeft v s)" "okStep B s (rotateRight v s)"
proof -
  define sp where "sp = constrain v (MIN_SPEED s) MAX_ROTATION_SPEED"
  note b = rotation_bounds [OF l rl, of v, folded sp_def]
  note r = real_bounds [OF b]
  have B: "0 \<le> B"
    using l by (simp add: limitsOk_def)
  define s1 where "s1 = debugPrint ''Rotating LEFT (CCW)'' s"
  define s1' where "s1' = debugPrint ''Rotating RIGHT (CW)'' s"
  have step: "okStep B s (setCurrentSpeed RIGHT 0 (setCurrentSpeed LEFT 0 (debugPrintV x s)))" for x
  proof -
    have 1: "okStep B s (debugPrintV x s)"
      using quiet_debugPrintV w by (rule okStep_quiet)
    have 2: "okStep B (debugPrintV x s) (setCurrentSpeed LEFT 0 (debugPrintV x s))"
      using okStep_wheels [OF 1] B by (rule okStep_setCurrentSpeed)
    note 12 = okStep_trans [OF 1 2]
    have 3: "okStep B (setCurrentSpeed LEFT 0 (debugPrintV x s))
               (setCurrentSpeed RIGHT 0 (setCurrentSpeed LEFT 0 (debugPrintV x s)))"
      using okStep_wheels [OF 12] B by (rule okStep_setCurrentSpeed)
    show ?thesis
      by (rule okStep_trans [OF 12 3])
  qed
  have three: "okStep B s (moveMotor BACK db vb (moveMotor RIGHT dr vr (moveMotor LEFT dl vl
                 (setCurrentSpeed RIGHT 0 (setCurrentSpeed LEFT 0 (debugPrintV x s))))))"
    if "0 \<le> vl" "vl \<le> real_of_int B" "0 \<le> vr" "vr \<le> real_of_int B"
      "0 \<le> vb" "vb \<le> real_of_int B" for db vb dr vr dl vl x
    using step [of x] okStep_three [OF okStep_limits [OF step [of x] l] okStep_wheels [OF step [of x]] that]
    by (rule okStep_trans)
  show "okStep B s (rotateLeft v s)"
    using B by (simp add: rotateLeft_def Let_def sp_def [symmetric] three b)
  show "okStep B s (rotateRight v s)"
    using B by (simp add: rotateRight_def Let_def sp_def [symmetric] three b)
qed

lemma okStep_slides:
  assumes l: "limitsOk B s" and w: "wheelsWithin B s"
    and rl: "useThreeWheels s \<or> MAX_ROTATION_SPEED \<le> B"
  shows "okStep B s (slideLeft v s)" "okStep B s (slideRight v s)"
proof -
  define sp where "sp = constrain v (MIN_SPEED s) (MAX_SPEED s)"
  note b = speed_bounds [OF l, of v, folded sp_def]
  note r = real_bounds [OF b]
  have B: "0 \<le> real_of_int B"
    using l by (simp add: limitsOk_def)
  note m = okStep_maneuver [OF l w quiet_debugPrintV]
  note q = okStep_quiet [OF quiet_debugPrintV w]
  have q2: "okStep B s (debugPrintV y (debugPrintV x s))" for x y
    using quiet_trans [OF quiet_debugPrintV quiet_debugPrintV] w by (rule okStep_quiet)
  have rot: "okStep B s (rotateLeft sp (debugPrintV x s))" "okStep B s (rotateRight sp (debugPrintV x s))"
    if "\<not> useThreeWheels s" for x
  proof -
    from that rl have k: "MAX_ROTATION_SPEED \<le> B"
      by simp
    note o = okStep_rotate [OF okStep_limits [OF q [of x] l] okStep_wheels [OF q [of x]] k, of sp]
    show "okStep B s (rotateLeft sp (debugPrintV x s))"
      using q [of x] o(1) by (rule okStep_trans)
    show "okStep B s (rotateRight sp (debugPrintV x s))"
      using q [of x] o(2) by (rule okStep_trans)
  qed
  show "okStep B s (slideLeft v s)"
    apply (simp add: slideLeft_def Let_def sp_def [symmetric] q q2 rot)
    apply (intro conjI impI m)
    using r B apply linarith+
    done
  show "okStep B s (slideRight v s)"
    apply (simp add: slideRight_def Let_def sp_def [symmetric] q q2 rot)
    apply (intro conjI impI m)
    using r B apply linarith+
    done
qed

lemma movementBlocked_front: "\<not> movementBlocked 1 s \<Longrightarrow> \<not> frontEmergencyStop s"
  by (simp add: movementBlocked_def)

lemma okStep_performMovement:
  assumes l: "limitsOk B s" and w: "wheelsWithin B s"
    and d: "1 \<le> direction" "direction \<le> 12"
    and a: "direction = 1 \<Longrightarrow> avoidanceState s = IDLE \<or> \<not> enableObstacleAvoidance s"
    and f: "direction = 1 \<Longrightarrow> \<not> frontEmergencyStop s"
    and rl: "rotationLimited direction s \<Longrightarrow> MAX_ROTATION_SPEED \<le> B"
  shows "okStep B s (performMovement X direction v s)"
proof -
  from d have "direction = 1 \<or> direction = 2 \<or> direction = 3 \<or> direction = 4
      \<or> direction = 5 \<or> direction = 6 \<or> direction = 7 \<or> direction = 8 \<or> direction = 9
      \<or> direction = 10 \<or> direction = 11 \<or> direction = 12"
    by arith
  then consider "direction = 1" | "direction = 2" | "direction = 3" | "direction = 4"
    | "direction = 5" | "direction = 6" | "direction = 7" | "direction = 8" | "direction = 9"
    | "direction = 10" | "direction = 11" | "direction = 12"
    by blast
  then show ?thesis
  proof cases
    case 1
    with f a okStep_moveForward [OF l w] show ?thesis
      by (simp add: performMovement_def)
  next
    case 2
    with okStep_moveBackward [OF l w] show ?thesis
      by (simp add: performMovement_def)
  next
    case 3
    with rl have "MAX_ROTATION_SPEED \<le> B"
      by (simp add: rotationLimited_def)
    with 3 okStep_turns(1) [OF l w] show ?thesis
      by (simp add: performMovement_def)
  next
    case 4
    with rl have "MAX_ROTATION_SPEED \<le> B"
      by (simp add: rotationLimited_def)
    with 4 okStep_turns(2) [OF l w] show ?thesis
      by (simp add: performMovement_def)
  next
    case 5
    with rl have "MAX_ROTATION_SPEED \<le> B"
      by (simp add: rotationLimited_def)
    with 5 okStep_rotate(1) [OF l w] show ?thesis
      by (simp add: performMovement_def)
  next
    case 6
    with rl have "MAX_ROTATION_SPEED \<le> B"
      by (simp add: rotationLimited_def)
    with 6 okStep_rotate(2) [OF l w] show ?thesis
      by (simp add: performMovement_def)
  next
    case 7
    with rl have "useThreeWheels s \<or> MAX_ROTATION_SPEED \<le> B"
      by (auto simp add: rotationLimited_def)
    with 7 okStep_slides(1) [OF l w] show ?thesis
      by (simp add: performMovement_def)
  next
    case 8
    with rl have "useThreeWheels s \<or> MAX_ROTATION_SPEED \<le> B"
      by (auto simp add: rotationLimited_def)
    with 8 okStep_slides(2) [OF l w] show ?thesis
      by (simp add: performMovement_def)
  next
    case 9
    with okStep_diagonals(1) [OF l w] show ?thesis
      by (simp add: performMovement_def)
  next
    case 10
    with okStep_diagonals(2) [OF l w] show ?thesis
      by (simp add: performMovement_def)
  next
    case 11
    with okStep_diagonals(3) [OF l w] show ?thesis
      by (simp add: performMovement_def)
  next
    case 12
    with okStep_diagonals(4) [OF l w] show ?thesis
      by (simp add: performMovement_def)
  qed
qed

lemma okStep_executeMovement:
  assumes l: "limitsOk B s" and w: "wheelsWithin B s"
    and d: "1 \<le> direction" "direction \<le> 12"
    and a: "direction = 1 \<Longrightarrow> avoidanceState s = IDLE \<or> \<not> enableObstacleAvoidance s"
    and rl: "rotationLimited direction s \<Longrightarrow> MAX_ROTATION_SPEED \<le> B"
  shows "okStep B s (executeMovement X direction v s)"
proof (cases "masterOverrideActive s \<or> movementBlocked direction s")
  case True
  then have "quiet s (executeMovement X direction v s)"
    by (auto simp add: executeMovement_def quiet_debugPrintV quiet_reportBlocked)
  then show ?thesis
    using w by (rule okStep_quiet)
next
  case False
  define s1 where "s1 = reportAdjusted v (safeSpeedFor direction v s) s"
  have q: "quiet s s1"
    unfolding s1_def by (rule quiet_reportAdjusted)
  have 1: "okStep B s s1"
    using q w by (rule okStep_quiet)
  have a1: "avoidanceState s1 = IDLE \<or> \<not> enableObstacleAvoidance s1" if "direction = 1"
    using a [OF that] by (simp add: quiet_fields [OF q])
  have f1: "\<not> frontEmergencyStop s1" if "direction = 1"
    using that False by (simp add: quiet_fields [OF q] movementBlocked_def)
  have r1: "MAX_ROTATION_SPEED \<le> B" if "rotationLimited direction s1"
    using that rl by (simp add: rotationLimited_def quiet_fields [OF q])
  have "okStep B s1 (performMovement X direction (safeSpeedFor direction v s) s1)"
    using okStep_limits [OF 1 l] okStep_wheels [OF 1] d a1 f1 r1 by (rule okStep_performMovement)
  with 1 have "okStep B s (performMovement X direction (safeSpeedFor direction v s) s1)"
    by (rule okStep_trans)
  with False show ?thesis
    by (simp add: executeMovement_def s1_def)
qed

lemma moveMotor_tag_eq:
  "moveMotor_tag m dir t s =
     s\<lparr>currentSpeed := (currentSpeed s)
          (m := if dir = STOP then 0
                else accelLimit (MAX_SPEED s) (currentSpeed s m)
                       (constrain t 0 (real_of_int (MAX_SPEED s)))),
       pwm := pwm s @ motorWrites m dir False
                        (c_int (accelLimit (MAX_SPEED s) (currentSpeed s m)
                           (constrain t 0 (real_of_int (MAX_SPEED s))))),
       cmds := cmds s @ [(m, dir, t)]\<rparr>"
  by (cases dir)
     (simp_all add: moveMotor_tag_def Let_def logCmd_def setCurrentSpeed_def
        analogWrite_def motorWrites_def)

lemma okStep_moveMotor_tag:
  assumes M: "0 \<le> MAX_SPEED s" and w: "wheelsWithin (MAX_SPEED s) s"
  shows "wheelsWithin (MAX_SPEED s) (moveMotor_tag m dir t s)
    \<and> MAX_SPEED (moveMotor_tag m dir t s) = MAX_SPEED s
    \<and> pwm (moveMotor_tag m dir t s) = pwm s @ newPwm s (moveMotor_tag m dir t s)
    \<and> pwmWithin (MAX_SPEED s) (newPwm s (moveMotor_tag m dir t s))"
proof -
  define x where "x = accelLimit (MAX_SPEED s) (currentSpeed s m)
                       (constrain t 0 (real_of_int (MAX_SPEED s)))"
  have c: "0 \<le> constrain t 0 (real_of_int (MAX_SPEED s))"
    "constrain t 0 (real_of_int (MAX_SPEED s)) \<le> real_of_int (MAX_SPEED s)"
    using M by (simp_all add: constrain_between)
  have st: "0 \<le> currentSpeed s m" "currentSpeed s m \<le> real_of_int (MAX_SPEED s)"
    using w by (simp_all add: wheelsWithin_iff)
  have x: "0 \<le> x" "x \<le> real_of_int (MAX_SPEED s)"
    unfolding x_def using M st c by (rule accelLimit_between)+
  have d: "pwmWithin (MAX_SPEED s) (motorWrites m dir False (c_int x))"
    using c_int_bounds [OF x] by (rule pwmWithin_motorWrites)
  have n: "newPwm s (moveMotor_tag m dir t s) = motorWrites m dir False (c_int x)"
    by (simp add: newPwm_def moveMotor_tag_eq x_def)
  have "wheelsWithin (MAX_SPEED s) (moveMotor_tag m dir t s)"
    using w x M by (simp add: wheelsWithin_iff moveMotor_tag_eq x_def)
  then show ?thesis
    using d by (simp add: n) (simp add: moveMotor_tag_eq x_def)
qed

text \<open>
  Claim C5 does not hold as stated for the consolidated sketch, whose \<^verbatim>\<open>moveMotor\<close> has no
  clamp of its own: after \<^verbatim>\<open><SPEED:50,30>\<close> and \<^verbatim>\<open><MODE:1>\<close> the rotation functions still clamp
  to \<^verbatim>\<open>MAX_ROTATION_SPEED = 65\<close>, and the seventh \<^verbatim>\<open><ROT:1,100>\<close> writes the duty cycle 52 to
  the back wheel while \<^verbatim>\<open>MAX_SPEED\<close> is 50.
\<close>

theorem rotation_duty_above_MAX_SPEED:
  "map_sum id (\<lambda>(p, s). (MAX_SPEED s, last (pwm s), pwmWithin (MAX_SPEED s) (pwm s)))
     (processSerialInput noExt 0
        ''<SPEED:50,30><MODE:1><ROT:1,100><ROT:1,100><ROT:1,100><ROT:1,100><ROT:1,100><ROT:1,100><ROT:1,100>''
        init_parser init_state)
   = Inr (50, (BACK, LPWM, 52), False)"
  by code_simp

text \<open>
  Claim C5, amended. Consolidated sketch: let the limits be ordered,
  \<open>0 \<le> MIN_SPEED \<le> MAX_SPEED\<close>, and let the ramped speed of every wheel lie in
  \<open>[0, MAX_SPEED]\<close>. Then every duty cycle written by a movement request with a direction
  code from 1 to 12 lies in \<open>[0, MAX_SPEED]\<close>, for every requested speed, and the limits and
  the bound on the ramped speeds hold again afterwards. For the requests that clamp to
  \<^verbatim>\<open>MAX_ROTATION_SPEED\<close> instead of \<^verbatim>\<open>MAX_SPEED\<close> (arc turns, rotations, and slides in
  two-wheel mode) this is shown when \<^verbatim>\<open>MAX_SPEED\<close> is at least \<^verbatim>\<open>MAX_ROTATION_SPEED\<close>. The
  forward request (code 1) is taken outside an avoidance maneuver, whose code is not part
  of the sources. The same holds for direct calls of the rotation functions. Tag-tracking
  variant: \<^verbatim>\<open>moveMotor\<close> clamps its target, so for every target speed its duty cycles lie in
  \<open>[0, MAX_SPEED]\<close> once the ramped speeds do, and they still do afterwards.
\<close>

theorem duty_cycles_within_MAX_SPEED:
  "(0 \<le> MIN_SPEED s \<and> MIN_SPEED s \<le> MAX_SPEED s \<and> wheelsWithin (MAX_SPEED s) s
      \<and> 1 \<le> direction \<and> direction \<le> 12
      \<and> (rotationLimited direction s \<longrightarrow> MAX_ROTATION_SPEED \<le> MAX_SPEED s)
      \<and> (direction = 1 \<longrightarrow> avoidanceState s = IDLE \<or> \<not> enableObstacleAvoidance s) \<longrightarrow>
        pwmWithin (MAX_SPEED s) (newPwm s (executeMovement X direction v s))
        \<and> wheelsWithin (MAX_SPEED s) (executeMovement X direction v s)
        \<and> MAX_SPEED (executeMovement X direction v s) = MAX_SPEED s
        \<and> MIN_SPEED (executeMovement X direction v s) = MIN_SPEED s)
   \<and> (0 \<le> MIN_SPEED s \<and> MIN_SPEED s \<le> MAX_SPEED s \<and> wheelsWithin (MAX_SPEED s) s
      \<and> MAX_ROTATION_SPEED \<le> MAX_SPEED s \<longrightarrow>
        pwmWithin (MAX_SPEED s) (newPwm s (rotateLeft v s))
        \<and> wheelsWithin (MAX_SPEED s) (rotateLeft v s)
        \<and> pwmWithin (MAX_SPEED s) (newPwm s (rotateRight v s))
        \<and> wheelsWithin (MAX_SPEED s) (rotateRight v s))
   \<and> (0 \<le> MAX_SPEED t \<and> wheelsWithin (MAX_SPEED t) t \<longrightarrow>
        pwmWithin (MAX_SPEED t) (newPwm t (moveMotor_tag m dir x t))
        \<and> wheelsWithin (MAX_SPEED t) (moveMotor_tag m dir x t)
        \<and> MAX_SPEED (moveMotor_tag m dir x t) = MAX_SPEED t)"
proof (intro conjI impI)
  assume a: "0 \<le> MIN_SPEED s \<and> MIN_SPEED s \<le> MAX_SPEED s \<and> wheelsWithin (MAX_SPEED s) s
      \<and> 1 \<le> direction \<and> direction \<le> 12
      \<and> (rotationLimited direction s \<longrightarrow> MAX_ROTATION_SPEED \<le> MAX_SPEED s)
      \<and> (direction = 1 \<longrightarrow> avoidanceState s = IDLE \<or> \<not> enableObstacleAvoidance s)"
  then have l: "limitsOk (MAX_SPEED s) s"
    by (simp add: limitsOk_def)
  from a l have k: "okStep (MAX_SPEED s) s (executeMovement X direction v s)"
    by (intro okStep_executeMovement) simp_all
  then show "pwmWithin (MAX_SPEED s) (newPwm s (executeMovement X direction v s))"
    "MAX_SPEED (executeMovement X direction v s) = MAX_SPEED s"
    "MIN_SPEED (executeMovement X direction v s) = MIN_SPEED s"
    by (simp_all add: okStep_def)
  from k show "wheelsWithin (MAX_SPEED s) (executeMovement X direction v s)"
    by (rule okStep_wheels)
next
  assume a: "0 \<le> MIN_SPEED s \<and> MIN_SPEED s \<le> MAX_SPEED s \<and> wheelsWithin (MAX_SPEED s) s
      \<and> MAX_ROTATION_SPEED \<le> MAX_SPEED s"
  then have l: "limitsOk (MAX_SPEED s) s"
    by (simp add: limitsOk_def)
  from a l have k: "okStep (MAX_SPEED s) s (rotateLeft v s)" "okStep (MAX_SPEED s) s (rotateRight v s)"
    by (simp_all add: okStep_rotate)
  from k show "pwmWithin (MAX_SPEED s) (newPwm s (rotateLeft v s))"
    "pwmWithin (MAX_SPEED s) (newPwm s (rotateRight v s))"
    by (simp_all add: okStep_def)
  from k show "wheelsWithin (MAX_SPEED s) (rotateLeft v s)"
    "wheelsWithin (MAX_SPEED s) (rotateRight v s)"
    by (simp_all add: okStep_wheels)
next
  assume a: "0 \<le> MAX_SPEED t \<and> wheelsWithin (MAX_SPEED t) t"
  then have k: "wheelsWithin (MAX_SPEED t) (moveMotor_tag m dir x t)
    \<and> MAX_SPEED (moveMotor_tag m dir x t) = MAX_SPEED t
    \<and> pwm (moveMotor_tag m dir x t) = pwm t @ newPwm t (moveMotor_tag m dir x t)
    \<and> pwmWithin (MAX_SPEED t) (newPwm t (moveMotor_tag m dir x t))"
    by (simp add: okStep_moveMotor_tag)
  then show "pwmWithin (MAX_SPEED t) (newPwm t (moveMotor_tag m dir x t))"
    "wheelsWithin (MAX_SPEED t) (moveMotor_tag m dir x t)"
    "MAX_SPEED (moveMotor_tag m dir x t) = MAX_SPEED t"
    by simp_all
qed

text \<open>
  An arc turn to the left at a requested speed of 300 in three-wheel mode from the
  start-up state, whose \<^verbatim>\<open>MAX_SPEED\<close> is 100, and a forward command of 400 to the left wheel
  of the tag-tracking variant, whose \<^verbatim>\<open>MAX_SPEED\<close> is 150.
\<close>

theorem duty_cycles_within_MAX_SPEED_witness:
  "wheelsWithin 100 (init_state\<lparr>useThreeWheels := True\<rparr>)
   \<and> rotationLimited 3 (init_state\<lparr>useThreeWheels := True\<rparr>)
   \<and> pwmWithin 100 (newPwm (init_state\<lparr>useThreeWheels := True\<rparr>)
        (executeMovement noExt 3 300 (init_state\<lparr>useThreeWheels := True\<rparr>)))
   \<and> pwmWithin 100 (newPwm (init_state\<lparr>useThreeWheels := True\<rparr>)
        (rotateLeft 300 (init_state\<lparr>useThreeWheels := True\<rparr>)))
   \<and> wheelsWithin 150 init_state_tag
   \<and> pwmWithin 150 (newPwm init_state_tag (moveMotor_tag LEFT FORWARD 400 init_state_tag))"
proof -
  have h: "MAX_SPEED (init_state\<lparr>useThreeWheels := True\<rparr>) = 100"
    "MIN_SPEED (init_state\<lparr>useThreeWheels := True\<rparr>) = 50"
    "wheelsWithin 100 (init_state\<lparr>useThreeWheels := True\<rparr>)"
    "avoidanceState (init_state\<lparr>useThreeWheels := True\<rparr>) = IDLE"
    "rotationLimited 3 (init_state\<lparr>useThreeWheels := True\<rparr>)"
    "MAX_ROTATION_SPEED \<le> 100"
    by (simp_all add: wheelsWithin_def init_state_def MAX_ROTATION_SPEED_def rotationLimited_def)
  have g: "MAX_SPEED init_state_tag = 150" "wheelsWithin 150 init_state_tag"
    by (simp_all add: wheelsWithin_def init_state_tag_def init_state_def)
  from duty_cycles_within_MAX_SPEED
    [of "init_state\<lparr>useThreeWheels := True\<rparr>" 3 noExt 300 init_state_tag LEFT FORWARD 400]
    h g
  show ?thesis
    by simp
qed

subsection \<open>Rotation in place is clamped to the rotation limit\<close>

lemma say_frame [simp]:
  "cmds (say x s) = cmds s" "pwm (say x s) = pwm s" "MAX_SPEED (say x s) = MAX_SPEED s"
  "MIN_SPEED (say x s) = MIN_SPEED s"
  by (simp_all add: say_def)

lemma newCmds_println [simp]: "newCmds s (println x t) = newCmds s t"
  by (simp add: newCmds_def println_def)

lemma newCmds_quiet: "quiet s t \<Longrightarrow> newCmds s t = []"
  by (simp add: newCmds_def quiet_fields)

lemma cmds_rotateLeft:
  "cmds (rotateLeft v s) = cmds s @
     [(LEFT, FORWARD, real_of_int (constrain v (MIN_SPEED s) MAX_ROTATION_SPEED)),
      (RIGHT, FORWARD, real_of_int (constrain v (MIN_SPEED s) MAX_ROTATION_SPEED)),
      (BACK, if useThreeWheels s then BACKWARD else STOP,
       if useThreeWheels s then real_of_int (constrain v (MIN_SPEED s) MAX_ROTATION_SPEED) else 0)]"
  by (simp add: rotateLeft_def Let_def)

lemma cmds_rotateRight:
  "cmds (rotateRight v s) = cmds s @
     [(LEFT, BACKWARD, real_of_int (constrain v (MIN_SPEED s) MAX_ROTATION_SPEED)),
      (RIGHT, BACKWARD, real_of_int (constrain v (MIN_SPEED s) MAX_ROTATION_SPEED)),
      (BACK, if useThreeWheels s then FORWARD else STOP,
       if useThreeWheels s then real_of_int (constrain v (MIN_SPEED s) MAX_ROTATION_SPEED) else 0)]"
  by (simp add: rotateRight_def Let_def)

lemma cmdsWithin_rotate:
  assumes m: "MIN_SPEED s \<le> MAX_ROTATION_SPEED" and q: "quiet s0 s"
  shows "cmdsWithin (MIN_SPEED s0) MAX_ROTATION_SPEED (newCmds s0 (rotateLeft v s))"
    "cmdsWithin (MIN_SPEED s0) MAX_ROTATION_SPEED (newCmds s0 (rotateRight v s))"
proof -
  note b = constrain_between [OF m, of v]
  have e: "cmds s = cmds s0" "MIN_SPEED s = MIN_SPEED s0"
    using q by (simp_all add: quiet_fields)
  show "cmdsWithin (MIN_SPEED s0) MAX_ROTATION_SPEED (newCmds s0 (rotateLeft v s))"
    using b by (simp add: newCmds_def cmds_rotateLeft cmdsWithin_def e)
  show "cmdsWithin (MIN_SPEED s0) MAX_ROTATION_SPEED (newCmds s0 (rotateRight v s))"
    using b by (simp add: newCmds_def cmds_rotateRight cmdsWithin_def e)
qed

lemma cmdsWithin_executeMovement:
  assumes m: "MIN_SPEED s \<le> MAX_ROTATION_SPEED" and d: "direction = 5 \<or> direction = 6"
  shows "cmdsWithin (MIN_SPEED s) MAX_ROTATION_SPEED (newCmds s (executeMovement X direction v s))"
proof (cases "masterOverrideActive s \<or> movementBlocked direction s")
  case True
  then have "quiet s (executeMovement X direction v s)"
    by (auto simp add: executeMovement_def quiet_debugPrintV quiet_reportBlocked)
  then show ?thesis
    by (simp add: newCmds_quiet cmdsWithin_def)
next
  case False
  define s1 where "s1 = reportAdjusted v (safeSpeedFor direction v s) s"
  have q: "quiet s s1"
    unfolding s1_def by (rule quiet_reportAdjusted)
  have m1: "MIN_SPEED s1 \<le> MAX_ROTATION_SPEED"
    using m by (simp add: quiet_fields [OF q])
  from d show ?thesis
  proof
    assume "direction = 5"
    with False cmdsWithin_rotate(1) [OF m1 q] show ?thesis
      by (simp add: executeMovement_def performMovement_def s1_def)
  next
    assume "direction = 6"
    with False cmdsWithin_rotate(2) [OF m1 q] show ?thesis
      by (simp add: executeMovement_def performMovement_def s1_def)
  qed
qed

lemma cmdsWithin_keys:
  assumes m: "MIN_SPEED s \<le> MAX_ROTATION_SPEED"
  shows "cmdsWithin (MIN_SPEED s) MAX_ROTATION_SPEED (newCmds s (dispatch X now ''Q'' params s))"
    "cmdsWithin (MIN_SPEED s) MAX_ROTATION_SPEED (newCmds s (dispatch X now ''E'' params s))"
  using cmdsWithin_executeMovement [OF m, of 5 X "MAX_SPEED s"]
    cmdsWithin_executeMovement [OF m, of 6 X "MAX_SPEED s"]
  by (simp_all add: dispatch_def handleKey_def)

lemma cmdsWithin_ROT:
  assumes m: "MIN_SPEED s \<le> MAX_ROTATION_SPEED"
    and p: "sscanf_d_d (intBits X) params = [direction, v]" and d: "direction = 1 \<or> direction = 2"
  shows "cmdsWithin (MIN_SPEED s) MAX_ROTATION_SPEED (newCmds s (dispatch X now ''ROT'' params s))"
  using d p cmdsWithin_rotate [OF m quiet_refl]
  by (auto simp add: dispatch_def handleROT_def Let_def)

lemma cmdsWithin_below:
  assumes "cmdsWithin lo hi xs" "hi < M" "0 < M"
  shows "cmdsBelow M xs"
proof -
  have "real_of_int hi < real_of_int M" "0 < real_of_int M"
    using assms(2,3) by simp_all
  then show ?thesis
    using assms(1) unfolding cmdsWithin_def cmdsBelow_def list_all_iff
    by (metis le_less_trans)
qed

text \<open>
  Claim C10 does not hold for every configuration the \<^verbatim>\<open>SPEED\<close> command can set. After
  \<^verbatim>\<open><SPEED:65,30>\<close> the command \<^verbatim>\<open><ROT:1,100>\<close> commands the rotation at 65, the full
  configured \<^verbatim>\<open>MAX_SPEED\<close>. After \<^verbatim>\<open><SPEED:200,100>\<close> the lower limit exceeds
  \<^verbatim>\<open>MAX_ROTATION_SPEED\<close>, \<^verbatim>\<open>constrain\<close> is applied twice (100 to 65 in the handler, 65 to 100
  in \<^verbatim>\<open>rotateLeft\<close>), and \<^verbatim>\<open><ROT:1,100>\<close> commands the rotation at 100.
\<close>

theorem rotation_at_configured_maximum:
  "map_sum id (\<lambda>(p, s). (MAX_SPEED s, cmds s))
     (processSerialInput noExt 0 ''<SPEED:65,30><ROT:1,100>'' init_parser init_state)
   = Inr (65, [(LEFT, FORWARD, 65), (RIGHT, FORWARD, 65), (BACK, STOP, 0)])
   \<and> map_sum id (\<lambda>(p, s). (MIN_SPEED s, cmds s))
     (processSerialInput noExt 0 ''<SPEED:200,100><ROT:1,100>'' init_parser init_state)
   = Inr (100, [(LEFT, FORWARD, 100), (RIGHT, FORWARD, 100), (BACK, STOP, 0)])"
  by code_simp

text \<open>
  Claim C10, amended. \<^verbatim>\<open>MAX_ROTATION_SPEED\<close> is 65. Whenever \<^verbatim>\<open>MIN_SPEED\<close> is at most
  \<^verbatim>\<open>MAX_ROTATION_SPEED\<close>, every rotate-in-place request (\<^verbatim>\<open>rotateLeft\<close>, \<^verbatim>\<open>rotateRight\<close>,
  direction codes 5 and 6, the keys \<^verbatim>\<open>Q\<close> and \<^verbatim>\<open>E\<close>, and a \<^verbatim>\<open>ROT\<close> command with direction 1
  or 2) issues, for every requested speed, only motor commands that stop a wheel with
  target 0 or drive it with a target in \<open>[MIN_SPEED, MAX_ROTATION_SPEED]\<close>; when moreover
  \<^verbatim>\<open>MAX_SPEED\<close> exceeds \<^verbatim>\<open>MAX_ROTATION_SPEED\<close>, every such target is below \<^verbatim>\<open>MAX_SPEED\<close>.
\<close>

theorem rotation_commands_clamped:
  "MAX_ROTATION_SPEED = 65
   \<and> (MIN_SPEED s \<le> MAX_ROTATION_SPEED \<longrightarrow>
        list_all (\<lambda>r. cmdsWithin (MIN_SPEED s) MAX_ROTATION_SPEED (newCmds s r)
                      \<and> (MAX_ROTATION_SPEED < MAX_SPEED s \<longrightarrow> cmdsBelow (MAX_SPEED s) (newCmds s r)))
          (rotationRequests X now v s))
   \<and> (MIN_SPEED s \<le> MAX_ROTATION_SPEED \<and> sscanf_d_d (intBits X) params = [direction, v]
        \<and> (direction = 1 \<or> direction = 2) \<longrightarrow>
        cmdsWithin (MIN_SPEED s) MAX_ROTATION_SPEED (newCmds s (dispatch X now ''ROT'' params s))
        \<and> (MAX_ROTATION_SPEED < MAX_SPEED s \<longrightarrow>
             cmdsBelow (MAX_SPEED s) (newCmds s (dispatch X now ''ROT'' params s))))"
proof (intro conjI impI)
  show "MAX_ROTATION_SPEED = 65"
    by (simp add: MAX_ROTATION_SPEED_def)
next
  assume m: "MIN_SPEED s \<le> MAX_ROTATION_SPEED"
  have below: "MAX_ROTATION_SPEED < MAX_SPEED s \<longrightarrow> cmdsBelow (MAX_SPEED s) xs"
    if "cmdsWithin (MIN_SPEED s) MAX_ROTATION_SPEED xs" for xs
    using that by (auto intro: cmdsWithin_below simp add: MAX_ROTATION_SPEED_def)
  define P where "P = (\<lambda>r. cmdsWithin (MIN_SPEED s) MAX_ROTATION_SPEED (newCmds s r)
      \<and> (MAX_ROTATION_SPEED < MAX_SPEED s \<longrightarrow> cmdsBelow (MAX_SPEED s) (newCmds s r)))"
  have P: "P r" if "cmdsWithin (MIN_SPEED s) MAX_ROTATION_SPEED (newCmds s r)" for r
    unfolding P_def using that below by blast
  have "P (rotateLeft v s)" "P (rotateRight v s)"
    by (rule P, rule cmdsWithin_rotate [OF m quiet_refl])+
  moreover have "P (executeMovement X 5 v s)" "P (executeMovement X 6 v s)"
    by (rule P, rule cmdsWithin_executeMovement [OF m], simp)+
  moreover have "P (dispatch X now ''Q'' [] s)" "P (dispatch X now ''E'' [] s)"
    by (rule P, rule cmdsWithin_keys [OF m])+
  ultimately have "list_all P (rotationRequests X now v s)"
    unfolding rotationRequests_def by simp
  then show "list_all (\<lambda>r. cmdsWithin (MIN_SPEED s) MAX_ROTATION_SPEED (newCmds s r)
                      \<and> (MAX_ROTATION_SPEED < MAX_SPEED s \<longrightarrow> cmdsBelow (MAX_SPEED s) (newCmds s r)))
          (rotationRequests X now v s)"
    unfolding P_def .
next
  assume a: "MIN_SPEED s \<le> MAX_ROTATION_SPEED \<and> sscanf_d_d (intBits X) params = [direction, v]
        \<and> (direction = 1 \<or> direction = 2)"
  then show w: "cmdsWithin (MIN_SPEED s) MAX_ROTATION_SPEED (newCmds s (dispatch X now ''ROT'' params s))"
    using cmdsWithin_ROT by blast
  assume "MAX_ROTATION_SPEED < MAX_SPEED s"
  with w show "cmdsBelow (MAX_SPEED s) (newCmds s (dispatch X now ''ROT'' params s))"
    by (auto intro: cmdsWithin_below simp add: MAX_ROTATION_SPEED_def)
qed

text \<open>
  From the start-up state (limits 50 and 100): direction code 5 at a requested speed of
  300, and \<^verbatim>\<open><ROT:2,300>\<close>.
\<close>

theorem rotation_commands_clamped_witness:
  "MIN_SPEED init_state \<le> MAX_ROTATION_SPEED \<and> MAX_ROTATION_SPEED < MAX_SPEED init_state
   \<and> sscanf_d_d (intBits noExt) ''2,300'' = [2, 300]
   \<and> cmdsWithin 50 65 (newCmds init_state (executeMovement noExt 5 300 init_state))
   \<and> cmdsBelow 100 (newCmds init_state (executeMovement noExt 5 300 init_state))
   \<and> cmdsWithin 50 65 (newCmds init_state (dispatch noExt 0 ''ROT'' ''2,300'' init_state))
   \<and> cmdsBelow 100 (newCmds init_state (dispatch noExt 0 ''ROT'' ''2,300'' init_state))"
proof -
  have h: "MIN_SPEED init_state = 50" "MAX_SPEED init_state = 100"
    by (simp_all add: init_state_def)
  have p: "sscanf_d_d (intBits noExt) ''2,300'' = [2, 300]"
    by code_simp
  from rotation_commands_clamped [of init_state noExt 0 300 "''2,300''" 2] h p
  show ?thesis
    by (simp add: rotationRequests_def)
qed

subsection \<open>A tag command and the time after it\<close>

text \<open>
  Claim C6 at the input \<^verbatim>\<open><TAG:7,50.0,1,80>\<close>, received 100 ms after start-up and followed
  by no further input. The \<^verbatim>\<open>TAG\<close> handler of the consolidated sketch records the time in
  \<^verbatim>\<open>lastTagUpdate\<close> and requests the forward movement: the left wheel is written the duty
  cycle 50 backward and the right wheel 50 forward. No function of the sketch reads
  \<^verbatim>\<open>lastTagUpdate\<close>: the interlock update of a later pass of the control loop, however
  late, issues no motor command and writes no duty cycle, so the wheels keep the duty
  cycles of the tag command.
\<close>

theorem stale_tag_keeps_driving:
  "map_sum id (\<lambda>(p, s). (lastTagUpdate s, newCmds init_state s, newPwm init_state s)) afterTag
     = Inr (100, [(LEFT, BACKWARD, 80), (RIGHT, FORWARD, 80), (BACK, STOP, 0)],
            [(LEFT, RPWM, 0), (LEFT, LPWM, 50), (RIGHT, RPWM, 50), (RIGHT, LPWM, 0),
             (BACK, RPWM, 0), (BACK, LPWM, 0)])
   \<and> map_sum id (\<lambda>(p, s). (lastTagUpdate (controlTick noExt s), newCmds s (controlTick noExt s),
                              newPwm s (controlTick noExt s))) afterTag
     = Inr (100, [], [])"
  by code_simp

subsection \<open>Framed commands: escaping followed by parsing\<close>

lemma escapePayload_Cons:
  "escapePayload (c # p) =
     (if c = START_MARKER \<or> c = END_MARKER \<or> c = ESCAPE_CHAR then ESCAPE_CHAR # c # escapePayload p
      else c # escapePayload p)"
  by (simp add: escapePayload_def)

lemma feed_plain:
  assumes "messageStarted st" "\<not> escapeNext st" "length (buffer st) < 63"
    "c \<noteq> START_MARKER" "c \<noteq> END_MARKER" "c \<noteq> ESCAPE_CHAR"
  shows "feed c st = (None, st\<lparr>buffer := buffer st @ [c]\<rparr>)"
  using assms by (simp add: feed_def store_def COMMAND_BUFFER_SIZE_def)

lemma feed_escape:
  assumes "messageStarted st" "\<not> escapeNext st"
  shows "feed ESCAPE_CHAR st = (None, st\<lparr>escapeNext := True\<rparr>)"
  using assms by (simp add: feed_def ESCAPE_CHAR_def START_MARKER_def END_MARKER_def)

lemma feed_escaped:
  assumes "messageStarted st" "\<not> escapeNext st" "length (buffer st) < 63"
  shows "feed c (st\<lparr>escapeNext := True\<rparr>) = (None, st\<lparr>buffer := buffer st @ [c]\<rparr>)"
  using assms by (cases st) (simp add: feed_def store_def COMMAND_BUFFER_SIZE_def)

lemma feedAll_payload:
  assumes "messageStarted st" "\<not> escapeNext st" "length (buffer st) + length p \<le> 63"
  shows "feedAll (escapePayload p @ rest) st = feedAll rest (st\<lparr>buffer := buffer st @ p\<rparr>)"
  using assms
proof (induction p arbitrary: st)
  case Nil
  then show ?case
    by (simp add: escapePayload_def)
next
  case (Cons c p)
  let ?st = "st\<lparr>buffer := buffer st @ [c]\<rparr>"
  have l: "length (buffer st) < 63"
    using Cons.prems(3) by simp
  have step: "feedAll (escapePayload (c # p) @ rest) st = feedAll (escapePayload p @ rest) ?st"
  proof (cases "c = START_MARKER \<or> c = END_MARKER \<or> c = ESCAPE_CHAR")
    case True
    then show ?thesis
      by (simp add: escapePayload_Cons feed_escape [OF Cons.prems(1,2)]
          feed_escaped [OF Cons.prems(1,2) l])
  next
    case False
    then show ?thesis
      by (simp add: escapePayload_Cons feed_plain [OF Cons.prems(1,2) l])
  qed
  have "feedAll (escapePayload p @ rest) ?st = feedAll rest (?st\<lparr>buffer := buffer ?st @ p\<rparr>)"
    using Cons.prems by (intro Cons.IH) simp_all
  with step show ?case
    by simp
qed

lemma feed_start:
  assumes "\<not> escapeNext st"
  shows "feed START_MARKER st = (None, st\<lparr>messageStarted := True, buffer := []\<rparr>)"
  using assms by (simp add: feed_def START_MARKER_def)

lemma feed_end:
  assumes "messageStarted st" "\<not> escapeNext st"
  shows "feed END_MARKER st = (Some (cstring (buffer st)), st\<lparr>messageStarted := False, buffer := []\<rparr>)"
  using assms by (simp add: feed_def START_MARKER_def END_MARKER_def)

lemma feedAll_frame:
  assumes "\<not> escapeNext st" "length p \<le> 63"
  shows "feedAll (frame p @ rest) st =
    (cstring p # fst (feedAll rest (st\<lparr>messageStarted := False, buffer := []\<rparr>)),
     snd (feedAll rest (st\<lparr>messageStarted := False, buffer := []\<rparr>)))"
proof -
  let ?s1 = "st\<lparr>messageStarted := True, buffer := []\<rparr>"
  have "feedAll (frame p @ rest) st = feedAll (escapePayload p @ END_MARKER # rest) ?s1"
    by (simp add: frame_def feed_start [OF assms(1)])
  also have "\<dots> = feedAll (END_MARKER # rest) (?s1\<lparr>buffer := buffer ?s1 @ p\<rparr>)"
    using assms by (intro feedAll_payload) simp_all
  also have "\<dots> = (cstring p # fst (feedAll rest (st\<lparr>messageStarted := False, buffer := []\<rparr>)),
     snd (feedAll rest (st\<lparr>messageStarted := False, buffer := []\<rparr>)))"
    using assms(1) by (simp add: feed_end split: prod.split)
  finally show ?thesis .
qed

lemma cstring_id: "CHR 0x00 \<notin> set p \<Longrightarrow> cstring p = p"
  by (auto simp add: cstring_def)


lemma serialLoop_payload:
  assumes "messageStarted st" "\<not> escapeNext st" "length (buffer st) + length p \<le> 63"
  shows "serialLoop X now (escapePayload p @ rest) st s
    = serialLoop X now rest (st\<lparr>buffer := buffer st @ p\<rparr>) s"
  using assms
proof (induction p arbitrary: st)
  case Nil
  then show ?case
    by (simp add: escapePayload_def)
next
  case (Cons c p)
  let ?st = "st\<lparr>buffer := buffer st @ [c]\<rparr>"
  have l: "length (buffer st) < 63"
    using Cons.prems(3) by simp
  have step: "serialLoop X now (escapePayload (c # p) @ rest) st s
    = serialLoop X now (escapePayload p @ rest) ?st s"
  proof (cases "c = START_MARKER \<or> c = END_MARKER \<or> c = ESCAPE_CHAR")
    case True
    then show ?thesis
      by (simp add: escapePayload_Cons feed_escape [OF Cons.prems(1,2)]
          feed_escaped [OF Cons.prems(1,2) l])
  next
    case False
    then show ?thesis
      by (simp add: escapePayload_Cons feed_plain [OF Cons.prems(1,2) l])
  qed
  have "serialLoop X now (escapePayload p @ rest) ?st s
    = serialLoop X now rest (?st\<lparr>buffer := buffer ?st @ p\<rparr>) s"
    using Cons.prems by (intro Cons.IH) simp_all
  with step show ?case
    by simp
qed

lemma serialLoop_frame:
  assumes "\<not> escapeNext st" "length p \<le> 63"
  shows "serialLoop X now (frame p) st s =
    (case parseCommand X now (cstring p) s of
       Inl e \<Rightarrow> Inl e
     | Inr s1 \<Rightarrow> Inr (st\<lparr>messageStarted := False, buffer := []\<rparr>, s1))"
proof -
  let ?s1 = "st\<lparr>messageStarted := True, buffer := []\<rparr>"
  have "serialLoop X now (frame p) st s = serialLoop X now (escapePayload p @ [END_MARKER]) ?s1 s"
    by (simp add: frame_def feed_start [OF assms(1)])
  also have "\<dots> = serialLoop X now [END_MARKER] (?s1\<lparr>buffer := buffer ?s1 @ p\<rparr>) s"
    using assms by (intro serialLoop_payload) simp_all
  also have "\<dots> = (case parseCommand X now (cstring p) s of
       Inl e \<Rightarrow> Inl e
     | Inr s1 \<Rightarrow> Inr (st\<lparr>messageStarted := False, buffer := []\<rparr>, s1))"
    using assms(1) by (simp add: feed_end split: sum.split)
  finally show ?thesis .
qed

text \<open>
  Claim C7 does not hold for every payload byte string: the parser hands its buffer to
  \<^verbatim>\<open>parseCommand\<close> as a C string, so a payload with a NUL byte is cut at that byte. The
  payload \<^verbatim>\<open>a\<close>, NUL, \<^verbatim>\<open>b\<close> is dispatched as \<^verbatim>\<open>a\<close>.
\<close>

theorem nul_byte_cuts_payload:
  "fst (feedAll (frame [CHR ''a'', CHR 0x00, CHR ''b'']) init_parser) = [''a'']"
  by code_simp

text \<open>
  Claim C7, amended. Let the parser not be waiting for an escaped byte, and let the payload
  have fewer than \<^verbatim>\<open>COMMAND_BUFFER_SIZE\<close> bytes, none of them NUL. Then the bytes of the frame
  (start marker, payload with every marker and escape character preceded by the escape
  character, end marker) make the parser dispatch exactly one command, the payload itself,
  and leave it outside a message with an empty buffer; the read loop calls \<^verbatim>\<open>parseCommand\<close>
  on exactly the payload. With NUL bytes the dispatched string is the payload up to its
  first NUL.
\<close>

theorem framed_payload_round_trip:
  "(\<not> escapeNext st \<and> length p < COMMAND_BUFFER_SIZE \<and> CHR 0x00 \<notin> set p \<longrightarrow>
      feedAll (frame p) st = ([p], st\<lparr>messageStarted := False, buffer := []\<rparr>)
      \<and> serialLoop X now (frame p) st s =
          (case parseCommand X now p s of
             Inl e \<Rightarrow> Inl e
           | Inr s1 \<Rightarrow> Inr (st\<lparr>messageStarted := False, buffer := []\<rparr>, s1)))
   \<and> (\<not> escapeNext st \<and> length p < COMMAND_BUFFER_SIZE \<longrightarrow>
      feedAll (frame p) st = ([cstring p], st\<lparr>messageStarted := False, buffer := []\<rparr>))"
proof (intro conjI impI)
  assume a: "\<not> escapeNext st \<and> length p < COMMAND_BUFFER_SIZE \<and> CHR 0x00 \<notin> set p"
  then have l: "\<not> escapeNext st" "length p \<le> 63" and c: "cstring p = p"
    by (simp_all add: COMMAND_BUFFER_SIZE_def cstring_id)
  from feedAll_frame [OF l, of "[]"] c
  show "feedAll (frame p) st = ([p], st\<lparr>messageStarted := False, buffer := []\<rparr>)"
    by simp
  from serialLoop_frame [OF l] c
  show "serialLoop X now (frame p) st s =
          (case parseCommand X now p s of
             Inl e \<Rightarrow> Inl e
           | Inr s1 \<Rightarrow> Inr (st\<lparr>messageStarted := False, buffer := []\<rparr>, s1))"
    by simp
next
  assume a: "\<not> escapeNext st \<and> length p < COMMAND_BUFFER_SIZE"
  then have l: "\<not> escapeNext st" "length p \<le> 63"
    by (simp_all add: COMMAND_BUFFER_SIZE_def)
  from feedAll_frame [OF l, of "[]"]
  show "feedAll (frame p) st = ([cstring p], st\<lparr>messageStarted := False, buffer := []\<rparr>)"
    by simp
qed

text \<open>
  The payload \<^verbatim>\<open>a>b\<close>, whose end marker is escaped in the frame, received by the parser in
  its start-up state.
\<close>

theorem framed_payload_round_trip_witness:
  "\<not> escapeNext init_parser \<and> length ''a>b'' < COMMAND_BUFFER_SIZE \<and> CHR 0x00 \<notin> set ''a>b''
   \<and> frame ''a>b'' = [CHR ''<'', CHR ''a'', CHR 0x5C, CHR ''>'', CHR ''b'', CHR ''>'']
   \<and> fst (feedAll (frame ''a>b'') init_parser) = [''a>b'']"
proof -
  have h: "\<not> escapeNext init_parser" "length ''a>b'' < COMMAND_BUFFER_SIZE"
    "CHR 0x00 \<notin> set ''a>b''"
    by (simp_all add: init_parser_def COMMAND_BUFFER_SIZE_def)
  have f: "frame ''a>b'' = [CHR ''<'', CHR ''a'', CHR 0x5C, CHR ''>'', CHR ''b'', CHR ''>'']"
    by (simp add: frame_def escapePayload_def START_MARKER_def END_MARKER_def ESCAPE_CHAR_def)
  from framed_payload_round_trip [of init_parser "''a>b''" noExt 0 init_state] h
  have "fst (feedAll (frame ''a>b'') init_parser) = [''a>b'']"
    by simp
  with h f show ?thesis
    by simp
qed

subsection \<open>A malformed SPEED command\<close>

lemma splitCommand_SPEED:
  "splitCommand (''SPEED:'' @ params) =
     (if length params < 48 then Inr (''SPEED'', params) else Inl BufferOverflow)"
  by (simp add: splitCommand_def COMMAND_BUFFER_SIZE_def)

lemma handleSPEED_malformed:
  "length (sscanf_d_d (intBits X) params) \<noteq> 2 \<Longrightarrow>
     handleSPEED X params s = println ''<ERR:Invalid SPEED params>'' s"
  by (auto simp add: handleSPEED_def split: list.split)

lemma dispatch_SPEED: "dispatch X now ''SPEED'' params s = handleSPEED X params s"
  by (simp add: dispatch_def)

lemma quiet_println: "quiet s (println x s)"
  by (simp add: quiet_def println_def say_def)

lemma quiet_echoCommand: "quiet s (echoCommand cmd s)"
  by (simp add: quiet_def echoCommand_def say_def)

text \<open>
  A \<^verbatim>\<open>SPEED\<close> command whose parameters fit \<^verbatim>\<open>params[48]\<close> and do not scan as two integers
  is answered with \<^verbatim>\<open><ERR:Invalid SPEED params>\<close> as the last line printed, and nothing but
  the serial output changes: the speed limits stay as they were.
\<close>

lemma SPEED_malformed_rejected:
  assumes "length params < 48" "length (sscanf_d_d (intBits X) params) \<noteq> 2"
  shows "\<exists>s'. parseCommand X now (''SPEED:'' @ params) s = Inr s'
    \<and> quiet s s' \<and> MAX_SPEED s' = MAX_SPEED s \<and> MIN_SPEED s' = MIN_SPEED s
    \<and> serial s' = serial (echoCommand (''SPEED:'' @ params) s)
                     @ [Println (Str ''<ERR:Invalid SPEED params>'')]"
proof -
  let ?e = "echoCommand (''SPEED:'' @ params) s"
  let ?s' = "println ''<ERR:Invalid SPEED params>'' ?e"
  have p: "parseCommand X now (''SPEED:'' @ params) s = Inr ?s'"
    using assms
    by (simp add: parseCommand_def splitCommand_SPEED dispatch_SPEED handleSPEED_malformed
        del: append.simps)
  have q: "quiet s ?s'"
    by (rule quiet_trans [OF quiet_echoCommand quiet_println])
  have "serial ?s' = serial ?e @ [Println (Str ''<ERR:Invalid SPEED params>'')]"
    by (simp add: println_def say_def)
  with p q quiet_fields(9,10) [OF q] show ?thesis
    by simp
qed

text \<open>
  Claim C8 at the input \<^verbatim>\<open>SPEED:\<close> followed by 57 letters \<^verbatim>\<open>x\<close>. The command has 63
  characters, so it fits the 64-byte buffer of the serial parser, and its parameters do not
  scan as two integers. \<^verbatim>\<open>parseCommand\<close> copies the 57 parameter characters and their
  terminating NUL with \<^verbatim>\<open>strcpy\<close> into \<^verbatim>\<open>params[48]\<close>: the copy overruns the array before
  the \<^verbatim>\<open>SPEED\<close> handler is reached, both when \<^verbatim>\<open>parseCommand\<close> is called on the string and when
  the framed command arrives over the serial line.
\<close>

theorem SPEED_payload_overruns_params:
  "length (''SPEED:'' @ replicate 57 (CHR ''x'')) < COMMAND_BUFFER_SIZE
   \<and> sscanf_d_d (intBits X) (replicate 57 (CHR ''x'')) = []
   \<and> parseCommand X now (''SPEED:'' @ replicate 57 (CHR ''x'')) s = Inl BufferOverflow
   \<and> serialLoop X now (frame (''SPEED:'' @ replicate 57 (CHR ''x''))) init_parser s
       = Inl BufferOverflow"
proof (intro conjI)
  show l: "length (''SPEED:'' @ replicate 57 (CHR ''x'')) < COMMAND_BUFFER_SIZE"
    by (simp add: COMMAND_BUFFER_SIZE_def)
  show "sscanf_d_d (intBits X) (replicate 57 (CHR ''x'')) = []"
    by code_simp
  show p: "parseCommand X now (''SPEED:'' @ replicate 57 (CHR ''x'')) s = Inl BufferOverflow"
    by (simp add: parseCommand_def splitCommand_SPEED del: append.simps)
  have n: "cstring (''SPEED:'' @ replicate 57 (CHR ''x'')) = ''SPEED:'' @ replicate 57 (CHR ''x'')"
    by (rule cstring_id) simp
  have e: "\<not> escapeNext init_parser"
    by (simp add: init_parser_def)
  have k: "length (''SPEED:'' @ replicate 57 (CHR ''x'')) \<le> 63"
    by simp
  show "serialLoop X now (frame (''SPEED:'' @ replicate 57 (CHR ''x''))) init_parser s
       = Inl BufferOverflow"
    unfolding serialLoop_frame [OF e k] n p by simp
qed

end
